theory Spec2Isabelle
  imports Complex_Main
begin

section \<open>LifeShield: pricing, issuance, notification worker and API middleware\<close>

text \<open>
  The repository holds the running code of the API service (\<^verbatim>\<open>app.js\<close>,
  \<^verbatim>\<open>middleware/requestId.js\<close>) and, in \<^verbatim>\<open>docs/DetailedDesign.md\<close>, the pseudocode
  and step lists of the policy service (\<^verbatim>\<open>calculatePremium\<close>, \<^verbatim>\<open>POST /quotes\<close>,
  \<^verbatim>\<open>POST /quotes/:id/accept\<close>) and of the notification worker (\<^verbatim>\<open>poll\<close>,
  \<^verbatim>\<open>handleMessage\<close>, \<^verbatim>\<open>handlePolicyIssued\<close>). Each definition below follows one of
  these, function by function and step by step. Amounts of money are rationals;
  \<^verbatim>\<open>calculatePremium\<close> is given twice, over exact numbers and in the double precision
  of JavaScript. Integers are \<open>int\<close> or \<open>nat\<close>.
\<close>

subsection \<open>Pricing: \<^verbatim>\<open>calculatePremium\<close> (DetailedDesign 4.3.1)\<close>

datatype OccupationRisk = LOW | MEDIUM | HIGH

record riskProfile =
  age :: int
  smoker :: bool
  occupationRisk :: OccupationRisk

text \<open>\<^verbatim>\<open>const baseRate = 0.0005; // base monthly rate per unit coverage\<close>\<close>

definition baseRate :: rat where
  "baseRate = 5 / 10000"

text \<open>
  Modelled from the spec: \<^verbatim>\<open>roundToTwoDecimals\<close> is called by \<^verbatim>\<open>calculatePremium\<close> but
  defined nowhere in the repository. The specification fixes it as rounding to two decimal
  places, round-half-up: the amount in hundredths, plus one half, rounded down.
\<close>

definition roundToTwoDecimals :: "rat \<Rightarrow> rat" where
  "roundToTwoDecimals x = of_int \<lfloor>x * 100 + 1 / 2\<rfloor> / 100"

text \<open>
  The value of \<^verbatim>\<open>riskFactor\<close> after the three blocks of conditional increments:
  \<^verbatim>\<open>let riskFactor = 1.0;
  if (age > 50) riskFactor += 0.3; else if (age > 40) riskFactor += 0.2;
  else if (age > 30) riskFactor += 0.1;
  if (smoker) riskFactor += 0.5;
  if (occupationRisk === 'MEDIUM') riskFactor += 0.1;
  if (occupationRisk === 'HIGH') riskFactor += 0.25;\<close>
\<close>

definition riskFactor :: "riskProfile \<Rightarrow> rat" where
  "riskFactor p =
    (let r0 = 1;
         r1 = (if age p > 50 then r0 + 3 / 10
               else if age p > 40 then r0 + 2 / 10
               else if age p > 30 then r0 + 1 / 10
               else r0);
         r2 = (if smoker p then r1 + 5 / 10 else r1);
         r3 = (if occupationRisk p = MEDIUM then r2 + 1 / 10 else r2);
         r4 = (if occupationRisk p = HIGH then r3 + 25 / 100 else r3)
     in r4)"

text \<open>
  \<^verbatim>\<open>const monthlyPremium = coverageAmount * baseRate * riskFactor / 12;
  return roundToTwoDecimals(monthlyPremium);\<close>
  The function has no check of its arguments and never reads \<^verbatim>\<open>termYears\<close>. This
  is the pseudocode with its numbers read as exact decimals; \<open>calculatePremiumDouble\<close>
  below is the same pseudocode in the doubles JavaScript computes with.
\<close>

definition calculatePremium :: "riskProfile \<Rightarrow> rat \<Rightarrow> int \<Rightarrow> rat" where
  "calculatePremium p coverageAmount termYears =
    (let monthlyPremium = coverageAmount * baseRate * riskFactor p / 12
     in roundToTwoDecimals monthlyPremium)"

subsubsection \<open>The multiplier as the specification words it\<close>






subsection \<open>Pricing in double precision: \<^verbatim>\<open>calculatePremium\<close> as JavaScript evaluates it\<close>

text \<open>
  A JavaScript number is an IEEE-754 double, and \<^verbatim>\<open>+\<close>, \<^verbatim>\<open>*\<close> and \<^verbatim>\<open>/\<close> return the
  double nearest to the exact result, a tie going to the double whose last bit is even. A
  finite double is held here as the rational number it denotes, and \<open>toDouble\<close> is that
  rounding: doubles near \<open>x\<close> are the multiples of \<open>2\<^sup>e\<close>, where \<open>e\<close> is 52 below the
  binary exponent of \<open>x\<close> and never below \<open>-1074\<close> (the subnormal doubles). Results beyond
  the largest double do not arise in \<^verbatim>\<open>calculatePremium\<close>: a coverage amount that is a
  double, times 0.0005, times a factor of at most 2.05, stays below it.
\<close>

text \<open>The number of binary digits of a natural number.\<close>

fun bitLength :: "nat \<Rightarrow> nat" where
  "bitLength n = (if n = 0 then 0 else Suc (bitLength (n div 2)))"

declare bitLength.simps [simp del]

text \<open>The binary exponent of a positive rational: the \<open>k\<close> with \<open>2\<^sup>k \<le> x < 2\<^sup>k\<^sup>+\<^sup>1\<close>.\<close>

definition floorLog2 :: "rat \<Rightarrow> int" where
  "floorLog2 x =
    (if 1 \<le> x then int (bitLength (nat \<lfloor>x\<rfloor>)) - 1
     else - int (bitLength (nat (\<lceil>1 / x\<rceil> - 1))))"

definition pow2 :: "int \<Rightarrow> rat" where
  "pow2 k = (if 0 \<le> k then 2 ^ nat k else 1 / 2 ^ nat (- k))"

definition roundTiesToEven :: "rat \<Rightarrow> int" where
  "roundTiesToEven y =
    (let f = \<lfloor>y\<rfloor>; d = y - of_int f
     in if d < 1 / 2 then f
        else if 1 / 2 < d then f + 1
        else if even f then f else f + 1)"

definition toDouble :: "rat \<Rightarrow> rat" where
  "toDouble x =
    (if x = 0 then 0
     else (let e = max (floorLog2 \<bar>x\<bar> - 52) (- 1074);
               m = roundTiesToEven (\<bar>x\<bar> / pow2 e)
           in sgn x * of_int m * pow2 e))"



subsubsection \<open>The multiplier as the specification words it, in double precision\<close>



subsection \<open>Policy service: data model (DetailedDesign 3.2)\<close>

datatype QuoteStatus = PENDING | ACCEPTED | EXPIRED

datatype PolicyStatus = ACTIVE | LAPSED | CANCELLED

text \<open>A \<^verbatim>\<open>DATEONLY\<close> column: a calendar date.\<close>

record DateOnly =
  year :: int
  month :: nat
  day :: nat

text \<open>
  A row of table \<^verbatim>\<open>quotes\<close>. The primary key \<^verbatim>\<open>id\<close> is the key under which the
  row is stored in the table (a map from ids to rows), so it is not repeated in the row.
\<close>

record Quote =
  q_customerId :: int
  q_coverageAmount :: rat
  q_termYears :: int
  q_monthlyPremium :: rat
  q_status :: QuoteStatus

record Policy =
  p_id :: int
  p_policyNumber :: string
  p_customerId :: int
  p_quoteId :: int
  p_startDate :: DateOnly
  p_endDate :: DateOnly
  p_status :: PolicyStatus

text \<open>
  The message published to SQS (Architecture 5.2):
  \<^verbatim>\<open>{ "type": "POLICY_ISSUED", "policyId": 42, "customerId": 10, "issuedAt": ... }\<close>
\<close>

record policyEvent =
  e_type :: string
  e_policyId :: int
  e_customerId :: int
  e_issuedAt :: nat

text \<open>
  What the policy service reads and writes: the customer details pricing consumes (owned
  by the customer service), its two tables, the auto-increment counter of \<^verbatim>\<open>quotes\<close>,
  the SQS queue it publishes to and its two domain counters. Policies are never deleted,
  so table \<^verbatim>\<open>policies\<close> is the list of its rows in insertion order and the next
  auto-increment id is its length plus one. There is no outbox table in the data model.
\<close>

record policyService =
  customers :: "int \<rightharpoonup> riskProfile"
  quotes :: "int \<rightharpoonup> Quote"
  nextQuoteId :: int
  policies :: "Policy list"
  sqsPolicyIssuedQueue :: "policyEvent list"
  quotes_created_total :: nat
  policies_issued_total :: nat

text \<open>The HTTP outcomes of the two routes other than success: 400, 404, 409, 500.\<close>

datatype apiError = BadRequest | NotFound | Conflict | InternalServerError

fun httpStatus :: "apiError \<Rightarrow> nat" where
  "httpStatus BadRequest = 400"
| "httpStatus NotFound = 404"
| "httpStatus Conflict = 409"
| "httpStatus InternalServerError = 500"

subsection \<open>Policy service: \<^verbatim>\<open>POST /quotes\<close> (DetailedDesign 4.3.1, 4.1.3)\<close>

text \<open>
  The request body. \<^verbatim>\<open>customerId\<close> is \<open>None\<close> when the body's value is not an
  integer.
\<close>

record createQuoteBody =
  b_customerId :: "int option"
  b_coverageAmount :: rat
  b_termYears :: int

text \<open>
  Steps: 1. validate the request body (\<^verbatim>\<open>coverageAmount > 0\<close>, \<^verbatim>\<open>termYears > 0\<close>,
  \<^verbatim>\<open>customerId\<close> is an integer), else 400; 2.-3. confirm the customer exists and fetch
  its details, else 404; 4. \<^verbatim>\<open>calculatePremium(customer, coverageAmount, termYears)\<close>;
  5. create the \<^verbatim>\<open>Quote\<close> with status \<^verbatim>\<open>PENDING\<close>; 6. increment
  \<^verbatim>\<open>quotes_created_total\<close>; 7. return 201 with the quote (its id and row).
\<close>

definition createQuote ::
  "createQuoteBody \<Rightarrow> policyService \<Rightarrow> (apiError + int \<times> Quote) \<times> policyService" where
  "createQuote body w =
    (case b_customerId body of
       None \<Rightarrow> (Inl BadRequest, w)
     | Some cid \<Rightarrow>
        if \<not> (b_coverageAmount body > 0 \<and> b_termYears body > 0) then (Inl BadRequest, w)
        else
          (case customers w cid of
             None \<Rightarrow> (Inl NotFound, w)
           | Some customer \<Rightarrow>
              (let premium = calculatePremium customer (b_coverageAmount body) (b_termYears body);
                   quote = \<lparr>q_customerId = cid, q_coverageAmount = b_coverageAmount body,
                            q_termYears = b_termYears body, q_monthlyPremium = premium,
                            q_status = PENDING\<rparr>;
                   newId = nextQuoteId w;
                   w1 = w\<lparr>quotes := (quotes w)(newId \<mapsto> quote), nextQuoteId := newId + 1\<rparr>;
                   w2 = w1\<lparr>quotes_created_total := quotes_created_total w1 + 1\<rparr>
               in (Inr (newId, quote), w2))))"

subsection \<open>Policy service: \<^verbatim>\<open>POST /quotes/:id/accept\<close> (DetailedDesign 4.3.2)\<close>

text \<open>
  What one call reads from its environment: \<^verbatim>\<open>Date.now()\<close>, today's date, and whether
  the database fails during the transaction (use case UC-4, alternative flow 4a).
\<close>

record acceptEnv =
  now :: nat
  today :: DateOnly
  dbError :: bool

text \<open>Decimal digits of a number, as string concatenation in JavaScript prints them.\<close>

fun showNat :: "nat \<Rightarrow> string" where
  "showNat n = (if n < 10 then [''0123456789'' ! n]
                else showNat (n div 10) @ [''0123456789'' ! (n mod 10)])"

declare showNat.simps [simp del]

definition showInt :: "int \<Rightarrow> string" where
  "showInt i = (if i < 0 then CHR ''-'' # showNat (nat (- i)) else showNat (nat i))"

text \<open>\<^verbatim>\<open>endDate = startDate + termYears\<close>: the same day and month, \<^verbatim>\<open>termYears\<close> years on.\<close>

definition addYears :: "DateOnly \<Rightarrow> int \<Rightarrow> DateOnly" where
  "addYears d n = d\<lparr>year := year d + n\<rparr>"

text \<open>
  Step 5, the Sequelize transaction: create the \<^verbatim>\<open>Policy\<close>
  (\<^verbatim>\<open>policyNumber = "LS-" + Date.now() + "-" + quote.id\<close>, \<^verbatim>\<open>startDate\<close> today,
  \<^verbatim>\<open>endDate = startDate + termYears\<close>, status \<^verbatim>\<open>ACTIVE\<close>) and update the quote's
  status to \<^verbatim>\<open>ACCEPTED\<close>; step 6, commit. The result is the committed state, or \<open>None\<close>
  when the database fails (an error of the database, or the unique constraint on
  \<^verbatim>\<open>policyNumber\<close>): the transaction rolls back and nothing is written. The transaction
  writes to the two tables only.
\<close>

definition issuePolicyTransaction ::
  "acceptEnv \<Rightarrow> int \<Rightarrow> Quote \<Rightarrow> policyService \<Rightarrow> (Policy \<times> policyService) option" where
  "issuePolicyTransaction env quoteId quote w =
    (let startDate = today env;
         policy = \<lparr>p_id = int (length (policies w)) + 1,
                   p_policyNumber = ''LS-'' @ showNat (now env) @ ''-'' @ showInt quoteId,
                   p_customerId = q_customerId quote,
                   p_quoteId = quoteId,
                   p_startDate = startDate,
                   p_endDate = addYears startDate (q_termYears quote),
                   p_status = ACTIVE\<rparr>
     in if dbError env \<or> p_policyNumber policy \<in> set (map p_policyNumber (policies w))
        then None
        else Some (policy,
                   w\<lparr>policies := policies w @ [policy],
                     quotes := (quotes w)(quoteId \<mapsto> quote\<lparr>q_status := ACCEPTED\<rparr>)\<rparr>))"

text \<open>Step 7: publish the \<^verbatim>\<open>POLICY_ISSUED\<close> event to SQS via \<^verbatim>\<open>sqsPublisher\<close>.\<close>

definition publishPolicyIssued :: "acceptEnv \<Rightarrow> Policy \<Rightarrow> policyService \<Rightarrow> policyService" where
  "publishPolicyIssued env policy w =
    w\<lparr>sqsPolicyIssuedQueue := sqsPolicyIssuedQueue w @
        [\<lparr>e_type = ''POLICY_ISSUED'', e_policyId = p_id policy,
          e_customerId = p_customerId policy, e_issuedAt = now env\<rparr>]\<rparr>"

text \<open>
  The route. Steps: 1. validate that \<^verbatim>\<open>id\<close> is an integer (\<open>None\<close> when it is not,
  answered 400 as every failed validation is);
  2. fetch the quote by id; 3. not found, 404; 4. status other than \<^verbatim>\<open>PENDING\<close>,
  409 Conflict; 5.-6. the transaction and its commit (on a database error: roll back, 500);
  7. publish \<^verbatim>\<open>POLICY_ISSUED\<close> to SQS; 8. increment \<^verbatim>\<open>policies_issued_total\<close>;
  9. return 201 with the policy.
\<close>

definition acceptQuote ::
  "acceptEnv \<Rightarrow> int option \<Rightarrow> policyService \<Rightarrow> (apiError + Policy) \<times> policyService" where
  "acceptQuote env idParam w =
    (case idParam of
       None \<Rightarrow> (Inl BadRequest, w)
     | Some quoteId \<Rightarrow>
        (case quotes w quoteId of
           None \<Rightarrow> (Inl NotFound, w)
         | Some quote \<Rightarrow>
            if q_status quote \<noteq> PENDING then (Inl Conflict, w)
            else
              (case issuePolicyTransaction env quoteId quote w of
                 None \<Rightarrow> (Inl InternalServerError, w)
               | Some (policy, committed) \<Rightarrow>
                  (let w1 = publishPolicyIssued env policy committed;
                       w2 = w1\<lparr>policies_issued_total := policies_issued_total w1 + 1\<rparr>
                   in (Inr policy, w2)))))"

text \<open>Requests to the policy service, and the service run over a sequence of them.\<close>

datatype request = CreateQuote createQuoteBody | AcceptQuote acceptEnv "int option"

fun serve :: "request \<Rightarrow> policyService \<Rightarrow> policyService" where
  "serve (CreateQuote body) w = snd (createQuote body w)"
| "serve (AcceptQuote env idParam) w = snd (acceptQuote env idParam w)"

fun serveAll :: "request list \<Rightarrow> policyService \<Rightarrow> policyService" where
  "serveAll [] w = w"
| "serveAll (r # rs) w = serveAll rs (serve r w)"

text \<open>The service with nothing stored and nothing published yet.\<close>

definition emptyService :: "(int \<rightharpoonup> riskProfile) \<Rightarrow> policyService" where
  "emptyService cs =
    \<lparr>customers = cs, quotes = Map.empty, nextQuoteId = 1, policies = [],
     sqsPolicyIssuedQueue = [], quotes_created_total = 0, policies_issued_total = 0\<rparr>"

text \<open>The policies issued for one quote.\<close>

definition policiesOfQuote :: "int \<Rightarrow> policyService \<Rightarrow> Policy list" where
  "policiesOfQuote quoteId w = filter (\<lambda>p. p_quoteId p = quoteId) (policies w)"

subsection \<open>Notification worker (DetailedDesign 5.1, 5.2)\<close>

text \<open>A JSON value; an object is the list of its properties.\<close>

datatype json =
    JNull
  | JBool bool
  | JNum int
  | JStr string
  | JArr "json list"
  | JObj "(string \<times> json) list"

text \<open>
  A message as \<^verbatim>\<open>sqs.receiveMessage\<close> delivers it. \<^verbatim>\<open>Body\<close> is held as what
  \<^verbatim>\<open>JSON.parse(msg.Body)\<close> makes of it: \<open>None\<close> when the text is not JSON and the
  call throws.
\<close>

record sqsMessage =
  MessageId :: string
  ReceiptHandle :: string
  Body :: "json option"

text \<open>What can be thrown while one message is processed.\<close>

datatype workerError =
    SyntaxError
  | TypeError
  | SqsError

text \<open>The worker's log lines: level, text and the logged values.\<close>

datatype logEntry =
    LogInfo string "json option" "json option"
  | LogWarn string "json option"
  | LogError string workerError "sqsMessage option"

text \<open>
  What the worker acts on: the messages the queue holds (a received message stays until
  it is deleted), the log, and the metrics. The worker has no store of its own: no record
  of the messages it has processed, and no dead-letter queue it writes to.
\<close>

record worker =
  sqsQueue :: "sqsMessage list"
  logged :: "logEntry list"
  processedTotal :: nat
  failedTotal :: nat
  durationsObserved :: nat

text \<open>
  Reading property \<open>k\<close> of a parsed body that is not \<^verbatim>\<open>null\<close>: \<^verbatim>\<open>undefined\<close>
  (\<open>None\<close>) unless the body is an object that has it.
\<close>

fun getProp :: "json \<Rightarrow> string \<Rightarrow> json option" where
  "getProp (JObj kvs) k = map_of kvs k"
| "getProp _ k = None"

text \<open>
  \<^verbatim>\<open>async function handlePolicyIssued({ policyId, customerId }) {
    logger.info('Simulating welcome email for policy', { policyId, customerId }); }\<close>
\<close>

definition handlePolicyIssued :: "json \<Rightarrow> worker \<Rightarrow> worker" where
  "handlePolicyIssued body w =
    (let policyId = getProp body ''policyId'';
         customerId = getProp body ''customerId''
     in w\<lparr>logged := logged w @
          [LogInfo ''Simulating welcome email for policy'' policyId customerId]\<rparr>)"

text \<open>
  \<^verbatim>\<open>async function handleMessage(msg) {
    const body = JSON.parse(msg.Body);
    if (body.type === 'POLICY_ISSUED') { await handlePolicyIssued(body); }
    else { logger.warn('Unhandled message type', { type: body.type }); } }\<close>
  \<^verbatim>\<open>JSON.parse\<close> throws a SyntaxError on text that is not JSON; reading \<^verbatim>\<open>body.type\<close>
  throws a TypeError when the text is the JSON \<^verbatim>\<open>null\<close>. Both happen before any effect.
\<close>

definition handleMessage :: "sqsMessage \<Rightarrow> worker \<Rightarrow> workerError + worker" where
  "handleMessage msg w =
    (case Body msg of
       None \<Rightarrow> Inl SyntaxError
     | Some JNull \<Rightarrow> Inl TypeError
     | Some body \<Rightarrow>
        if getProp body ''type'' = Some (JStr ''POLICY_ISSUED'')
        then Inr (handlePolicyIssued body w)
        else Inr (w\<lparr>logged := logged w @
                   [LogWarn ''Unhandled message type'' (getProp body ''type'')]\<rparr>))"

text \<open>
  \<^verbatim>\<open>sqs.deleteMessage({ QueueUrl, ReceiptHandle: msg.ReceiptHandle })\<close> on the queue.
\<close>

definition deleteMessage :: "string \<Rightarrow> worker \<Rightarrow> worker" where
  "deleteMessage handle w = w\<lparr>sqsQueue := filter (\<lambda>m. ReceiptHandle m \<noteq> handle) (sqsQueue w)\<rparr>"

text \<open>The \<^verbatim>\<open>catch\<close> block of the loop over the messages.\<close>

definition onProcessingError :: "workerError \<Rightarrow> sqsMessage \<Rightarrow> worker \<Rightarrow> worker" where
  "onProcessingError err msg w =
    w\<lparr>logged := logged w @ [LogError ''Error processing SQS message'' err (Some msg)],
      failedTotal := failedTotal w + 1\<rparr>"

text \<open>
  The body of \<^verbatim>\<open>for (const msg of messages.Messages)\<close>:
  \<^verbatim>\<open>try { await handleMessage(msg); await sqs.deleteMessage(...).promise();
        metrics.incrementProcessed(); metrics.observeProcessingDuration(...); }
  catch (err) { logger.error('Error processing SQS message', { err, msg });
        metrics.incrementFailed();
        // Optionally: move to DLQ, or rely on SQS redrive policy. }\<close>
  \<open>deleteOk\<close> tells for which receipt handles the call of \<^verbatim>\<open>sqs.deleteMessage\<close>
  succeeds; where it does not, the call throws.
\<close>

definition processMessage :: "(string \<Rightarrow> bool) \<Rightarrow> sqsMessage \<Rightarrow> worker \<Rightarrow> worker" where
  "processMessage deleteOk msg w =
    (case handleMessage msg w of
       Inl err \<Rightarrow> onProcessingError err msg w
     | Inr w1 \<Rightarrow>
        if deleteOk (ReceiptHandle msg)
        then (let w2 = deleteMessage (ReceiptHandle msg) w1;
                  w3 = w2\<lparr>processedTotal := processedTotal w2 + 1\<rparr>
              in w3\<lparr>durationsObserved := durationsObserved w3 + 1\<rparr>)
        else onProcessingError SqsError msg w1)"

fun processMessages :: "(string \<Rightarrow> bool) \<Rightarrow> sqsMessage list \<Rightarrow> worker \<Rightarrow> worker" where
  "processMessages deleteOk [] w = w"
| "processMessages deleteOk (msg # msgs) w =
     processMessages deleteOk msgs (processMessage deleteOk msg w)"

text \<open>
  One turn of \<^verbatim>\<open>while (true)\<close> in \<^verbatim>\<open>poll\<close>. \<^verbatim>\<open>sqs.receiveMessage\<close> either throws
  (the outer \<^verbatim>\<open>catch\<close> logs, waits and the loop goes on) or delivers a batch, which may
  be empty.
\<close>

datatype receiveResult = ReceiveFailed | Received "sqsMessage list"

fun pollOnce :: "(string \<Rightarrow> bool) \<Rightarrow> receiveResult \<Rightarrow> worker \<Rightarrow> worker" where
  "pollOnce deleteOk ReceiveFailed w =
     w\<lparr>logged := logged w @ [LogError ''Error in SQS polling loop'' SqsError None]\<rparr>"
| "pollOnce deleteOk (Received msgs) w = processMessages deleteOk msgs w"

text \<open>The loop over the outcomes of its first calls of \<^verbatim>\<open>receiveMessage\<close>, in order.\<close>

fun poll :: "(string \<Rightarrow> bool) \<Rightarrow> receiveResult list \<Rightarrow> worker \<Rightarrow> worker" where
  "poll deleteOk [] w = w"
| "poll deleteOk (r # rs) w = poll deleteOk rs (pollOnce deleteOk r w)"

text \<open>
  The notification side effects performed so far: the log lines of
  \<^verbatim>\<open>handlePolicyIssued\<close>.
\<close>

fun isNotification :: "logEntry \<Rightarrow> bool" where
  "isNotification (LogInfo text policyId customerId) =
     (text = ''Simulating welcome email for policy'')"
| "isNotification _ = False"

definition notificationsSent :: "worker \<Rightarrow> nat" where
  "notificationsSent w = length (filter isNotification (logged w))"

subsection \<open>API service: \<^verbatim>\<open>requestIdMiddleware\<close> and the error handler of \<^verbatim>\<open>createApp\<close>\<close>

text \<open>
  The parts of Express's \<^verbatim>\<open>req\<close> and \<^verbatim>\<open>res\<close> the two functions touch.
  \<^verbatim>\<open>req.headers\<close> maps lower-case header names to values; \<^verbatim>\<open>req.requestId\<close> is
  \<open>None\<close> while it is \<^verbatim>\<open>undefined\<close>. The response headers are kept under the names
  given to \<^verbatim>\<open>setHeader\<close>.
\<close>

record req =
  headers :: "string \<rightharpoonup> string"
  requestId :: "string option"

record res =
  resHeaders :: "string \<rightharpoonup> string"
  statusCode :: nat
  resBody :: "json option"

definition setHeader :: "string \<Rightarrow> string \<Rightarrow> res \<Rightarrow> res" where
  "setHeader name v r = r\<lparr>resHeaders := (resHeaders r)(name \<mapsto> v)\<rparr>"

text \<open>
  \<^verbatim>\<open>function requestIdMiddleware(req, res, next) {
    const existing = req.headers['x-request-id'];
    const requestId = existing || uuidv4();
    req.requestId = requestId;
    res.setHeader('X-Request-Id', requestId);
    next(); }\<close>
  \<open>uuid\<close> is what \<^verbatim>\<open>uuidv4()\<close> returns when it is called. \<^verbatim>\<open>||\<close> takes its right
  operand when the left one is \<^verbatim>\<open>undefined\<close> or the empty string.
\<close>

definition requestIdMiddleware :: "string \<Rightarrow> req \<Rightarrow> res \<Rightarrow> req \<times> res" where
  "requestIdMiddleware uuid rq rs =
    (let existing = headers rq ''x-request-id'';
         rid = (case existing of
                  None \<Rightarrow> uuid
                | Some s \<Rightarrow> if s = [] then uuid else s)
     in (rq\<lparr>requestId := Some rid\<rparr>, setHeader ''X-Request-Id'' rid rs))"

text \<open>A thrown value, as the error handler reads it: \<^verbatim>\<open>err.message\<close>, \<^verbatim>\<open>err.stack\<close>.\<close>

record jsError =
  message :: "string option"
  stack :: "string option"

text \<open>A line of \<^verbatim>\<open>logger.error\<close>: text, then \<^verbatim>\<open>error\<close>, \<^verbatim>\<open>stack\<close>, \<^verbatim>\<open>requestId\<close>.\<close>

datatype apiLogEntry = ErrorLog string "string option" "string option" "string option"

text \<open>
  \<^verbatim>\<open>app.use((err, req, res, next) => {
    logger.error('Unhandled error', { error: err.message, stack: err.stack,
                                      requestId: req.requestId });
    res.status(500).json({ errorCode: 'INTERNAL_ERROR',
                           message: 'Unexpected server error' }); });\<close>
  The result is the line logged and the response sent: its status and its JSON body (the
  headers Express adds when it sends a JSON body are left out).
\<close>

definition createApp_errorHandler :: "jsError \<Rightarrow> req \<Rightarrow> res \<Rightarrow> apiLogEntry \<times> res" where
  "createApp_errorHandler err rq rs =
    (ErrorLog ''Unhandled error'' (message err) (stack err) (requestId rq),
     rs\<lparr>statusCode := 500,
        resBody := Some (JObj [(''errorCode'', JStr ''INTERNAL_ERROR''),
                               (''message'', JStr ''Unexpected server error'')])\<rparr>)"

text \<open>
  The chain of \<^verbatim>\<open>createApp\<close> up to \<^verbatim>\<open>requestIdMiddleware\<close>, in the order of
  \<^verbatim>\<open>app.js\<close>: \<^verbatim>\<open>app.use(helmet())\<close>, \<^verbatim>\<open>app.use(cors())\<close>,
  \<^verbatim>\<open>app.use(express.json())\<close>, \<^verbatim>\<open>app.use(requestIdMiddleware)\<close>. The first two add
  headers of their own, none of them \<^verbatim>\<open>X-Request-Id\<close>; these are left out.
  \<^verbatim>\<open>cors()\<close> answers an \<^verbatim>\<open>OPTIONS\<close> request (\<open>verb\<close> is \<^verbatim>\<open>req.method\<close>) itself, with status 204, and
  the chain ends. \<^verbatim>\<open>express.json()\<close> either accepts the body or, when it is not the
  JSON it is declared to be, passes its error to \<^verbatim>\<open>next\<close>; Express then skips every
  middleware that is not an error handler, and the error handler of \<^verbatim>\<open>createApp\<close>
  answers. Otherwise \<^verbatim>\<open>requestIdMiddleware\<close> runs and passes the request on to the
  logger, the timer and the routes.
\<close>

datatype jsonBodyOutcome = BodyAccepted | BodyRejected jsError

datatype appProgress = Responded res | PassedOn req res

definition createApp_toRequestId ::
  "string \<Rightarrow> string \<Rightarrow> jsonBodyOutcome \<Rightarrow> req \<Rightarrow> res \<Rightarrow> appProgress" where
  "createApp_toRequestId uuid verb body rq rs =
    (if verb = ''OPTIONS'' then Responded (rs\<lparr>statusCode := 204\<rparr>)
     else
       (case body of
          BodyRejected err \<Rightarrow> Responded (snd (createApp_errorHandler err rq rs))
        | BodyAccepted \<Rightarrow>
           (case requestIdMiddleware uuid rq rs of (rq', rs') \<Rightarrow> PassedOn rq' rs')))"

subsection \<open>Predicates used to state the properties\<close>

text \<open>
  A state of the policy service is well formed when no two policies name the same quote,
  the quote of every policy is stored and \<^verbatim>\<open>ACCEPTED\<close>, and every stored quote has an
  id below the auto-increment counter.
\<close>

definition wellFormed :: "policyService \<Rightarrow> bool" where
  "wellFormed w \<longleftrightarrow>
     distinct (map p_quoteId (policies w))
     \<and> (\<forall>p \<in> set (policies w). \<exists>q. quotes w (p_quoteId p) = Some q \<and> q_status q = ACCEPTED)
     \<and> (\<forall>i \<in> dom (quotes w). i < nextQuoteId w)"

text \<open>A message whose body parses to an object of type \<^verbatim>\<open>POLICY_ISSUED\<close>.\<close>

definition isPolicyIssued :: "sqsMessage \<Rightarrow> bool" where
  "isPolicyIssued msg =
    (case Body msg of
       None \<Rightarrow> False
     | Some body \<Rightarrow> getProp body ''type'' = Some (JStr ''POLICY_ISSUED''))"

text \<open>
  Processing of a message fails when \<^verbatim>\<open>handleMessage\<close> throws or the call of
  \<^verbatim>\<open>sqs.deleteMessage\<close> after it does.
\<close>

definition processingFails :: "(string \<Rightarrow> bool) \<Rightarrow> sqsMessage \<Rightarrow> worker \<Rightarrow> bool" where
  "processingFails deleteOk msg w =
    (case handleMessage msg w of
       Inl err \<Rightarrow> True
     | Inr w1 \<Rightarrow> \<not> deleteOk (ReceiptHandle msg))"

subsection \<open>Concrete data for the examples\<close>

text \<open>
  The scenario of the specification: customer 42, aged 35, non-smoker, low-risk occupation,
  asks for a coverage of 10,000,000 over 20 years and is quoted 458.33 a month; the quote
  gets id 1 and is accepted on 1 December 2025.
\<close>

definition exampleProfile :: riskProfile where
  "exampleProfile = \<lparr>age = 35, smoker = False, occupationRisk = LOW\<rparr>"

definition exampleBody :: createQuoteBody where
  "exampleBody = \<lparr>b_customerId = Some 42, b_coverageAmount = 10000000, b_termYears = 20\<rparr>"

definition exampleQuote :: Quote where
  "exampleQuote =
    \<lparr>q_customerId = 42, q_coverageAmount = 10000000, q_termYears = 20,
     q_monthlyPremium = 45833 / 100, q_status = PENDING\<rparr>"

definition exampleEnv :: acceptEnv where
  "exampleEnv = \<lparr>now = 1764583200000, today = \<lparr>year = 2025, month = 12, day = 1\<rparr>,
                 dbError = False\<rparr>"

definition examplePolicy :: Policy where
  "examplePolicy =
    \<lparr>p_id = 1, p_policyNumber = ''LS-1764583200000-1'', p_customerId = 42, p_quoteId = 1,
     p_startDate = \<lparr>year = 2025, month = 12, day = 1\<rparr>,
     p_endDate = \<lparr>year = 2045, month = 12, day = 1\<rparr>, p_status = ACTIVE\<rparr>"

definition exampleEvent :: policyEvent where
  "exampleEvent =
    \<lparr>e_type = ''POLICY_ISSUED'', e_policyId = 1, e_customerId = 42,
     e_issuedAt = 1764583200000\<rparr>"

text \<open>
  The service before the quote is created, with the quote pending, at the commit of the
  issuance transaction, and after the acceptance.
\<close>

definition exampleService0 :: policyService where
  "exampleService0 = emptyService [42 \<mapsto> exampleProfile]"

definition exampleService1 :: policyService where
  "exampleService1 =
    \<lparr>customers = [42 \<mapsto> exampleProfile], quotes = [1 \<mapsto> exampleQuote], nextQuoteId = 2,
     policies = [], sqsPolicyIssuedQueue = [], quotes_created_total = 1,
     policies_issued_total = 0\<rparr>"

definition exampleCommitted :: policyService where
  "exampleCommitted =
    \<lparr>customers = [42 \<mapsto> exampleProfile],
     quotes = [1 \<mapsto> exampleQuote\<lparr>q_status := ACCEPTED\<rparr>], nextQuoteId = 2,
     policies = [examplePolicy], sqsPolicyIssuedQueue = [], quotes_created_total = 1,
     policies_issued_total = 0\<rparr>"

definition exampleService2 :: policyService where
  "exampleService2 =
    \<lparr>customers = [42 \<mapsto> exampleProfile],
     quotes = [1 \<mapsto> exampleQuote\<lparr>q_status := ACCEPTED\<rparr>], nextQuoteId = 2,
     policies = [examplePolicy], sqsPolicyIssuedQueue = [exampleEvent],
     quotes_created_total = 1, policies_issued_total = 1\<rparr>"

text \<open>
  For the worker: the message of the architecture document, a message whose body is not
  JSON, a queue holding both, and an SQS whose \<^verbatim>\<open>deleteMessage\<close> always succeeds.
\<close>

definition exampleMessage :: sqsMessage where
  "exampleMessage =
    \<lparr>MessageId = ''m-1'', ReceiptHandle = ''rh-1'',
     Body = Some (JObj [(''type'', JStr ''POLICY_ISSUED''), (''policyId'', JNum 42),
                        (''customerId'', JNum 10),
                        (''issuedAt'', JStr ''2025-12-01T10:00:00Z'')])\<rparr>"

definition malformedMessage :: sqsMessage where
  "malformedMessage = \<lparr>MessageId = ''m-2'', ReceiptHandle = ''rh-2'', Body = None\<rparr>"

definition exampleWorker :: worker where
  "exampleWorker =
    \<lparr>sqsQueue = [malformedMessage, exampleMessage], logged = [], processedTotal = 0,
     failedTotal = 0, durationsObserved = 0\<rparr>"

definition deleteAlwaysOk :: "string \<Rightarrow> bool" where
  "deleteAlwaysOk handle = True"

text \<open>For the API service: a request with and one without the header, and a thrown error.\<close>

definition exampleReqWithId :: req where
  "exampleReqWithId = \<lparr>headers = [''x-request-id'' \<mapsto> ''abc-123''], requestId = None\<rparr>"

definition exampleReqWithoutId :: req where
  "exampleReqWithoutId = \<lparr>headers = Map.empty, requestId = None\<rparr>"

definition exampleRes :: res where
  "exampleRes = \<lparr>resHeaders = Map.empty, statusCode = 200, resBody = None\<rparr>"

definition exampleUuid :: string where
  "exampleUuid = ''9b1deb4d-3b7d-4bad-9bdd-2b0d7b3dcb6d''"

definition exampleError :: jsError where
  "exampleError = \<lparr>message = Some ''connect ECONNREFUSED 127.0.0.1:3306'',
                   stack = Some ''Error: connect ECONNREFUSED 127.0.0.1:3306 at TCPConnectWrap''\<rparr>"


text \<open>The error \<^verbatim>\<open>express.json()\<close> raises on a body that is not JSON.\<close>

definition exampleBodyError :: jsError where
  "exampleBodyError =
    \<lparr>message = Some ''Unexpected token } in JSON at position 17'',
     stack = Some ''SyntaxError: Unexpected token } in JSON at position 17 at JSON.parse''\<rparr>"

section \<open>Properties\<close>

subsection \<open>Pricing\<close>












subsubsection \<open>Double precision\<close>

lemma floor_rat_numeral: "\<lfloor>numeral a / numeral b :: rat\<rfloor> = numeral a div numeral b"
  using floor_divide_of_int_eq [of "numeral a" "numeral b", where ?'a = rat] by simp

lemma ceiling_rat_numeral: "\<lceil>numeral a / numeral b :: rat\<rceil> = - (- numeral a div numeral b)"
  using floor_divide_of_int_eq [of "- numeral a" "numeral b", where ?'a = rat]
  by (simp add: ceiling_def)

text \<open>The equations that evaluate \<open>toDouble\<close> on a numeral.\<close>

lemmas double_eval = toDouble_def floorLog2_def pow2_def roundTiesToEven_def Let_def
  bitLength.simps floor_rat_numeral ceiling_rat_numeral


lemma toDouble_ties:
  "toDouble 9007199254740993 = 9007199254740992"
  "toDouble 9007199254740995 = 9007199254740996"
  "toDouble (1 / 10) = 3602879701896397 / 36028797018963968"
  "toDouble (toDouble (1 / 10) + toDouble (2 / 10)) = 5404319552844596 / 18014398509481984"
  by (simp_all add: double_eval)










subsubsection \<open>Validation and monotonicity\<close>







subsection \<open>Issuance: \<^verbatim>\<open>POST /quotes\<close> and \<^verbatim>\<open>POST /quotes/:id/accept\<close>\<close>

lemma acceptQuote_not_pending:
  "quotes w i = Some q \<Longrightarrow> q_status q \<noteq> PENDING \<Longrightarrow> acceptQuote env (Some i) w = (Inl Conflict, w)"
  by (simp add: acceptQuote_def)

lemma issuePolicyTransaction_SomeD:
  assumes "issuePolicyTransaction env i q w = Some (p, wc)"
  shows "p = \<lparr>p_id = int (length (policies w)) + 1,
               p_policyNumber = ''LS-'' @ showNat (now env) @ ''-'' @ showInt i,
               p_customerId = q_customerId q, p_quoteId = i, p_startDate = today env,
               p_endDate = addYears (today env) (q_termYears q), p_status = ACTIVE\<rparr>"
    and "wc = w\<lparr>policies := policies w @ [p],
                quotes := (quotes w)(i \<mapsto> q\<lparr>q_status := ACCEPTED\<rparr>)\<rparr>"
    and "\<not> dbError env"
  using assms by (auto simp: issuePolicyTransaction_def Let_def split: if_splits)

lemma issuePolicyTransaction_succeeds:
  assumes "\<not> dbError env"
    and "''LS-'' @ showNat (now env) @ ''-'' @ showInt i \<notin> set (map p_policyNumber (policies w))"
  shows "\<exists>p wc. issuePolicyTransaction env i q w = Some (p, wc)"
  using assms by (simp add: issuePolicyTransaction_def Let_def)

lemma acceptQuote_InrD:
  assumes "acceptQuote env idParam w = (Inr p, w')"
  shows "\<exists>i q wc. idParam = Some i \<and> quotes w i = Some q \<and> q_status q = PENDING
           \<and> issuePolicyTransaction env i q w = Some (p, wc)
           \<and> w' = (publishPolicyIssued env p wc)
                    \<lparr>policies_issued_total := policies_issued_total wc + 1\<rparr>"
  using assms
  by (auto simp: acceptQuote_def Let_def publishPolicyIssued_def split: option.splits if_splits)

lemma acceptQuote_Some_InrD:
  assumes "acceptQuote env (Some i) w = (Inr p, w')"
  shows "\<exists>q wc. quotes w i = Some q \<and> q_status q = PENDING
           \<and> issuePolicyTransaction env i q w = Some (p, wc)
           \<and> w' = (publishPolicyIssued env p wc)
                    \<lparr>policies_issued_total := policies_issued_total wc + 1\<rparr>"
  using acceptQuote_InrD [OF assms] by auto

lemma acceptQuote_pending_commit:
  assumes "quotes w i = Some q" and "q_status q = PENDING"
    and "issuePolicyTransaction env i q w = Some (p, wc)"
  shows "acceptQuote env (Some i) w =
           (Inr p, (publishPolicyIssued env p wc)
                     \<lparr>policies_issued_total := policies_issued_total wc + 1\<rparr>)"
  using assms by (simp add: acceptQuote_def Let_def publishPolicyIssued_def)

lemma acceptQuote_twice:
  assumes "acceptQuote env (Some i) w = (Inr p, w')"
  shows "acceptQuote env2 (Some i) w' = (Inl Conflict, w')"
proof -
  from acceptQuote_Some_InrD [OF assms] obtain q wc where
    q: "quotes w i = Some q" and tx: "issuePolicyTransaction env i q w = Some (p, wc)"
    and w': "w' = (publishPolicyIssued env p wc)
                    \<lparr>policies_issued_total := policies_issued_total wc + 1\<rparr>"
    by blast
  from issuePolicyTransaction_SomeD(2) [OF tx]
  have "quotes wc i = Some (q\<lparr>q_status := ACCEPTED\<rparr>)" by simp
  with w' have "quotes w' i = Some (q\<lparr>q_status := ACCEPTED\<rparr>)"
    by (simp add: publishPolicyIssued_def)
  then show ?thesis by (rule acceptQuote_not_pending) simp
qed

lemma acceptQuote_failure_state:
  "acceptQuote env idParam w = (Inl e, w') \<Longrightarrow> w' = w"
  by (auto simp: acceptQuote_def Let_def split: option.splits if_splits)

lemma wellFormed_alt:
  "wellFormed w \<longleftrightarrow>
     distinct (map p_quoteId (policies w))
     \<and> (\<forall>p \<in> set (policies w). \<exists>q. quotes w (p_quoteId p) = Some q \<and> q_status q = ACCEPTED)
     \<and> (\<forall>i q. quotes w i = Some q \<longrightarrow> i < nextQuoteId w)"
  unfolding wellFormed_def by (simp add: dom_def)

lemma wellFormed_emptyService: "wellFormed (emptyService cs)"
  by (simp add: wellFormed_def emptyService_def)

lemma wellFormed_createQuote:
  assumes "wellFormed w"
  shows "wellFormed (snd (createQuote body w))"
proof (cases "fst (createQuote body w)")
  case (Inl e)
  then have "snd (createQuote body w) = w"
    by (auto simp: createQuote_def Let_def split: option.splits if_splits)
  with assms show ?thesis by simp
next
  case (Inr r)
  then obtain cid customer where
    w': "snd (createQuote body w) =
          w\<lparr>quotes := (quotes w)(nextQuoteId w \<mapsto>
                \<lparr>q_customerId = cid, q_coverageAmount = b_coverageAmount body,
                 q_termYears = b_termYears body,
                 q_monthlyPremium = calculatePremium customer (b_coverageAmount body) (b_termYears body),
                 q_status = PENDING\<rparr>),
            nextQuoteId := nextQuoteId w + 1,
            quotes_created_total := quotes_created_total w + 1\<rparr>"
    by (auto simp: createQuote_def Let_def split: option.splits if_splits)
  have fresh: "quotes w (nextQuoteId w) = None"
    using assms by (cases "quotes w (nextQuoteId w)") (auto simp: wellFormed_alt)
  have old: "\<forall>p \<in> set (policies w). p_quoteId p \<noteq> nextQuoteId w"
    using assms fresh by (auto simp: wellFormed_alt)
  have below: "\<forall>i q. quotes w i = Some q \<longrightarrow> i < nextQuoteId w + 1"
    using assms by (fastforce simp: wellFormed_alt)
  show ?thesis
    unfolding w' using assms old below by (simp add: wellFormed_alt)
qed

lemma wellFormed_acceptQuote:
  assumes "wellFormed w"
  shows "wellFormed (snd (acceptQuote env idParam w))"
proof (cases "fst (acceptQuote env idParam w)")
  case (Inl e)
  then have "acceptQuote env idParam w = (Inl e, snd (acceptQuote env idParam w))"
    by (metis prod.collapse)
  then have "snd (acceptQuote env idParam w) = w" by (rule acceptQuote_failure_state)
  with assms show ?thesis by simp
next
  case (Inr p)
  then have "acceptQuote env idParam w = (Inr p, snd (acceptQuote env idParam w))"
    by (metis prod.collapse)
  from acceptQuote_InrD [OF this] obtain i q wc where
    q: "quotes w i = Some q" and pend: "q_status q = PENDING"
    and tx: "issuePolicyTransaction env i q w = Some (p, wc)"
    and w': "snd (acceptQuote env idParam w) = (publishPolicyIssued env p wc)
                    \<lparr>policies_issued_total := policies_issued_total wc + 1\<rparr>"
    by blast
  note wc = issuePolicyTransaction_SomeD(2) [OF tx]
  have pq: "p_quoteId p = i" using issuePolicyTransaction_SomeD(1) [OF tx] by simp
  have notissued: "\<forall>p' \<in> set (policies w). p_quoteId p' \<noteq> i"
    using assms q pend by (auto simp: wellFormed_alt)
  have below: "i < nextQuoteId w" using assms q by (simp add: wellFormed_alt)
  have "wellFormed wc"
    unfolding wc using assms notissued pq below by (auto simp: wellFormed_alt)
  then show ?thesis
    unfolding w' by (simp add: wellFormed_alt publishPolicyIssued_def)
qed

lemma wellFormed_serve: "wellFormed w \<Longrightarrow> wellFormed (serve r w)"
  by (cases r) (simp_all add: wellFormed_createQuote wellFormed_acceptQuote)

lemma wellFormed_serveAll: "wellFormed w \<Longrightarrow> wellFormed (serveAll rs w)"
  by (induction rs arbitrary: w) (simp_all add: wellFormed_serve)

lemma distinct_map_filter_le_one:
  "distinct (map f xs) \<Longrightarrow> length (filter (\<lambda>x. f x = a) xs) \<le> 1"
proof (induction xs)
  case Nil
  then show ?case by simp
next
  case (Cons x xs)
  show ?case
  proof (cases "f x = a")
    case True
    from Cons.prems have "f x \<notin> f ` set xs" by simp
    with True have "\<forall>y \<in> set xs. f y \<noteq> a" by blast
    then have "filter (\<lambda>x. f x = a) xs = []" by (simp add: filter_empty_conv)
    with True show ?thesis by simp
  next
    case False
    with Cons show ?thesis by simp
  qed
qed

lemma wellFormed_one_policy: "wellFormed w \<Longrightarrow> length (policiesOfQuote i w) \<le> 1"
  unfolding policiesOfQuote_def wellFormed_def
  by (blast intro: distinct_map_filter_le_one)

subsubsection \<open>The example, evaluated\<close>

lemma examplePremium: "calculatePremium exampleProfile 10000000 20 = 45833 / 100"
  unfolding exampleProfile_def by code_simp

lemma example_showNat: "showNat 1764583200000 = ''1764583200000''"
  by (simp add: showNat.simps)

lemma example_showInt: "showInt 1 = ''1''"
  by (simp add: showInt_def showNat.simps)

lemma example_createQuote:
  "createQuote exampleBody exampleService0 = (Inr (1, exampleQuote), exampleService1)"
  by (simp add: createQuote_def exampleBody_def exampleService0_def emptyService_def
      examplePremium exampleQuote_def exampleService1_def Let_def)

lemma example_transaction:
  "issuePolicyTransaction exampleEnv 1 exampleQuote exampleService1
     = Some (examplePolicy, exampleCommitted)"
  by (simp add: issuePolicyTransaction_def exampleEnv_def exampleService1_def
      example_showNat example_showInt examplePolicy_def exampleCommitted_def addYears_def
      exampleQuote_def Let_def)

lemma example_acceptQuote:
  "acceptQuote exampleEnv (Some 1) exampleService1 = (Inr examplePolicy, exampleService2)"
proof -
  have q: "quotes exampleService1 1 = Some exampleQuote" by (simp add: exampleService1_def)
  have s: "q_status exampleQuote = PENDING" by (simp add: exampleQuote_def)
  have "publishPolicyIssued exampleEnv examplePolicy exampleCommitted
           \<lparr>policies_issued_total := policies_issued_total exampleCommitted + 1\<rparr>
        = exampleService2"
    by (simp add: publishPolicyIssued_def exampleEnv_def examplePolicy_def exampleCommitted_def
        exampleService2_def exampleEvent_def)
  with acceptQuote_pending_commit [OF q s example_transaction] show ?thesis by simp
qed


lemma example_rollback:
  "issuePolicyTransaction (exampleEnv\<lparr>dbError := True\<rparr>) 1 exampleQuote exampleService1 = None"
  by (simp add: issuePolicyTransaction_def Let_def)

lemma acceptQuote_rollback:
  "quotes w i = Some q \<Longrightarrow> q_status q = PENDING \<Longrightarrow> issuePolicyTransaction env i q w = None
    \<Longrightarrow> acceptQuote env (Some i) w = (Inl InternalServerError, w)"
  by (simp add: acceptQuote_def)

lemma example_quote1: "quotes exampleService1 1 = Some exampleQuote"
  by (simp add: exampleService1_def)

lemma example_quote2: "quotes exampleService2 1 = Some (exampleQuote\<lparr>q_status := ACCEPTED\<rparr>)"
  by (simp add: exampleService2_def)

lemma example_pending: "q_status exampleQuote = PENDING"
  by (simp add: exampleQuote_def)

lemma example_serveAll:
  "serveAll [CreateQuote exampleBody, AcceptQuote exampleEnv (Some 1),
             AcceptQuote exampleEnv (Some 1)] exampleService0 = exampleService2"
proof -
  have "acceptQuote exampleEnv (Some 1) exampleService2 = (Inl Conflict, exampleService2)"
    using example_acceptQuote by (rule acceptQuote_twice)
  then show ?thesis by (simp add: example_createQuote example_acceptQuote)
qed

text \<open>
  Claim C1, as stated, fails: the issuance transaction of the example commits the policy
  and the accepted quote, and the committed state holds no event record of any kind: the
  queue is still empty, and the data model has no outbox table.
\<close>

theorem outbox_in_transaction_counterexample:
  "issuePolicyTransaction exampleEnv 1 exampleQuote exampleService1
     = Some (examplePolicy, exampleCommitted)
   \<and> policies exampleCommitted = [examplePolicy]
   \<and> map_option q_status (quotes exampleCommitted 1) = Some ACCEPTED
   \<and> sqsPolicyIssuedQueue exampleCommitted = []"
  by (simp add: example_transaction exampleCommitted_def)

text \<open>
  Claim C1, amended. For every successful \<^verbatim>\<open>acceptQuote\<close>, the insert of the policy and
  the quote's update from \<^verbatim>\<open>PENDING\<close> to \<^verbatim>\<open>ACCEPTED\<close> are the one transaction, which
  writes no event record; the \<^verbatim>\<open>POLICY_ISSUED\<close> event (type, policyId, customerId,
  issuedAt) is published to SQS after the commit, as a step of its own that leaves the
  tables as committed. When the database fails in the transaction, neither write is kept
  and the call ends in a 500.
\<close>

theorem acceptQuote_commit_then_publish:
  "(acceptQuote env (Some i) w = (Inr p, w') \<longrightarrow>
      (\<exists>q committed. quotes w i = Some q \<and> q_status q = PENDING
         \<and> issuePolicyTransaction env i q w = Some (p, committed)
         \<and> policies committed = policies w @ [p]
         \<and> quotes committed = (quotes w)(i \<mapsto> q\<lparr>q_status := ACCEPTED\<rparr>)
         \<and> sqsPolicyIssuedQueue committed = sqsPolicyIssuedQueue w
         \<and> policies w' = policies committed \<and> quotes w' = quotes committed
         \<and> sqsPolicyIssuedQueue w' = sqsPolicyIssuedQueue committed @
              [\<lparr>e_type = ''POLICY_ISSUED'', e_policyId = p_id p,
                e_customerId = p_customerId p, e_issuedAt = now env\<rparr>]))
   \<and> (quotes w i = Some q0 \<and> q_status q0 = PENDING
        \<and> issuePolicyTransaction env i q0 w = None
        \<longrightarrow> acceptQuote env (Some i) w = (Inl InternalServerError, w))"
proof (intro conjI impI)
  assume ok: "acceptQuote env (Some i) w = (Inr p, w')"
  from acceptQuote_Some_InrD [OF ok] obtain q wc where
    q: "quotes w i = Some q" "q_status q = PENDING"
    and tx: "issuePolicyTransaction env i q w = Some (p, wc)"
    and w': "w' = (publishPolicyIssued env p wc)
                    \<lparr>policies_issued_total := policies_issued_total wc + 1\<rparr>"
    by blast
  note wc = issuePolicyTransaction_SomeD(2) [OF tx]
  have c1: "policies wc = policies w @ [p]" by (subst wc) simp
  have c2: "quotes wc = (quotes w)(i \<mapsto> q\<lparr>q_status := ACCEPTED\<rparr>)" by (subst wc) simp
  have c3: "sqsPolicyIssuedQueue wc = sqsPolicyIssuedQueue w" by (subst wc) simp
  have d1: "policies w' = policies wc" by (simp add: w' publishPolicyIssued_def)
  have d2: "quotes w' = quotes wc" by (simp add: w' publishPolicyIssued_def)
  have d3: "sqsPolicyIssuedQueue w' = sqsPolicyIssuedQueue wc @
              [\<lparr>e_type = ''POLICY_ISSUED'', e_policyId = p_id p,
                e_customerId = p_customerId p, e_issuedAt = now env\<rparr>]"
    by (simp add: w' publishPolicyIssued_def)
  from q tx c1 c2 c3 d1 d2 d3
  show "\<exists>q committed. quotes w i = Some q \<and> q_status q = PENDING
         \<and> issuePolicyTransaction env i q w = Some (p, committed)
         \<and> policies committed = policies w @ [p]
         \<and> quotes committed = (quotes w)(i \<mapsto> q\<lparr>q_status := ACCEPTED\<rparr>)
         \<and> sqsPolicyIssuedQueue committed = sqsPolicyIssuedQueue w
         \<and> policies w' = policies committed \<and> quotes w' = quotes committed
         \<and> sqsPolicyIssuedQueue w' = sqsPolicyIssuedQueue committed @
              [\<lparr>e_type = ''POLICY_ISSUED'', e_policyId = p_id p,
                e_customerId = p_customerId p, e_issuedAt = now env\<rparr>]"
    by blast
next
  assume "quotes w i = Some q0 \<and> q_status q0 = PENDING
        \<and> issuePolicyTransaction env i q0 w = None"
  then show "acceptQuote env (Some i) w = (Inl InternalServerError, w)"
    by (simp add: acceptQuote_rollback)
qed

theorem acceptQuote_commit_then_publish_witness:
  "acceptQuote exampleEnv (Some 1) exampleService1 = (Inr examplePolicy, exampleService2)
   \<and> (\<exists>q committed. quotes exampleService1 1 = Some q \<and> q_status q = PENDING
         \<and> issuePolicyTransaction exampleEnv 1 q exampleService1 = Some (examplePolicy, committed)
         \<and> policies committed = policies exampleService1 @ [examplePolicy]
         \<and> quotes committed = (quotes exampleService1)(1 \<mapsto> q\<lparr>q_status := ACCEPTED\<rparr>)
         \<and> sqsPolicyIssuedQueue committed = sqsPolicyIssuedQueue exampleService1
         \<and> policies exampleService2 = policies committed
         \<and> quotes exampleService2 = quotes committed
         \<and> sqsPolicyIssuedQueue exampleService2 = sqsPolicyIssuedQueue committed @
              [\<lparr>e_type = ''POLICY_ISSUED'', e_policyId = p_id examplePolicy,
                e_customerId = p_customerId examplePolicy, e_issuedAt = now exampleEnv\<rparr>])
   \<and> sqsPolicyIssuedQueue exampleService2 = [exampleEvent]
   \<and> quotes exampleService1 1 = Some exampleQuote \<and> q_status exampleQuote = PENDING
   \<and> issuePolicyTransaction (exampleEnv\<lparr>dbError := True\<rparr>) 1 exampleQuote exampleService1 = None
   \<and> acceptQuote (exampleEnv\<lparr>dbError := True\<rparr>) (Some 1) exampleService1
        = (Inl InternalServerError, exampleService1)"
proof -
  note a = example_acceptQuote
  note b = acceptQuote_commit_then_publish
      [where env = exampleEnv and i = 1 and w = exampleService1 and p = examplePolicy
         and w' = exampleService2, THEN conjunct1, rule_format, OF a]
  have c: "sqsPolicyIssuedQueue exampleService2 = [exampleEvent]"
    by (simp add: exampleService2_def)
  note d = acceptQuote_commit_then_publish
      [where env = "exampleEnv\<lparr>dbError := True\<rparr>" and i = 1 and w = exampleService1
         and ?q0.0 = exampleQuote, THEN conjunct2, rule_format,
       OF conjI [OF example_quote1 conjI [OF example_pending example_rollback]]]
  from a b c example_quote1 example_pending example_rollback d show ?thesis
    by (intro conjI)
qed

text \<open>
  Claim C2. \<^verbatim>\<open>acceptQuote\<close> on a quote whose status is not \<^verbatim>\<open>PENDING\<close> ends in the
  conflict outcome (409) and leaves the service as it was, so it creates no policy; a
  second call on a quote after a successful first one ends in the conflict outcome; and in
  every state reached from a well-formed one by any sequence of requests, each quote has at
  most one policy.
\<close>

theorem acceptQuote_conflict_one_policy:
  "(quotes w i = Some q \<and> q_status q \<noteq> PENDING
      \<longrightarrow> acceptQuote env (Some i) w = (Inl Conflict, w))
   \<and> (acceptQuote env (Some i) w = (Inr p, w')
      \<longrightarrow> acceptQuote env2 (Some i) w' = (Inl Conflict, w'))
   \<and> (wellFormed w \<longrightarrow> length (policiesOfQuote i (serveAll rs w)) \<le> 1)
   \<and> httpStatus Conflict = 409"
proof (intro conjI impI)
  assume "quotes w i = Some q \<and> q_status q \<noteq> PENDING"
  then show "acceptQuote env (Some i) w = (Inl Conflict, w)"
    by (simp add: acceptQuote_not_pending)
next
  assume "acceptQuote env (Some i) w = (Inr p, w')"
  then show "acceptQuote env2 (Some i) w' = (Inl Conflict, w')"
    by (rule acceptQuote_twice)
next
  assume "wellFormed w"
  then have "wellFormed (serveAll rs w)" by (rule wellFormed_serveAll)
  then show "length (policiesOfQuote i (serveAll rs w)) \<le> 1"
    by (rule wellFormed_one_policy)
next
  show "httpStatus Conflict = 409" by simp
qed

theorem acceptQuote_conflict_one_policy_witness:
  "quotes exampleService2 1 = Some (exampleQuote\<lparr>q_status := ACCEPTED\<rparr>)
   \<and> q_status (exampleQuote\<lparr>q_status := ACCEPTED\<rparr>) \<noteq> PENDING
   \<and> acceptQuote exampleEnv (Some 1) exampleService1 = (Inr examplePolicy, exampleService2)
   \<and> acceptQuote exampleEnv (Some 1) exampleService2 = (Inl Conflict, exampleService2)
   \<and> wellFormed exampleService0
   \<and> length (policiesOfQuote 1
        (serveAll [CreateQuote exampleBody, AcceptQuote exampleEnv (Some 1),
                   AcceptQuote exampleEnv (Some 1)] exampleService0)) \<le> 1
   \<and> policies
        (serveAll [CreateQuote exampleBody, AcceptQuote exampleEnv (Some 1),
                   AcceptQuote exampleEnv (Some 1)] exampleService0) = [examplePolicy]"
proof -
  have s: "q_status (exampleQuote\<lparr>q_status := ACCEPTED\<rparr>) \<noteq> PENDING" by simp
  note a = example_acceptQuote
  note b = acceptQuote_conflict_one_policy
      [where w = exampleService1 and i = 1 and env = exampleEnv and p = examplePolicy
         and w' = exampleService2 and ?env2.0 = exampleEnv,
       THEN conjunct2, THEN conjunct1, rule_format, OF a]
  have wf: "wellFormed exampleService0"
    unfolding exampleService0_def by (rule wellFormed_emptyService)
  note c = acceptQuote_conflict_one_policy
      [where w = exampleService0 and i = 1, THEN conjunct2, THEN conjunct2, THEN conjunct1,
       rule_format, OF wf]
  have d: "policies
        (serveAll [CreateQuote exampleBody, AcceptQuote exampleEnv (Some 1),
                   AcceptQuote exampleEnv (Some 1)] exampleService0) = [examplePolicy]"
    by (simp only: example_serveAll) (simp add: exampleService2_def)
  from example_quote2 s a b wf c d show ?thesis by (intro conjI)
qed

text \<open>
  Claim C5. For every \<^verbatim>\<open>PENDING\<close> quote, a successful \<^verbatim>\<open>acceptQuote\<close> returns a
  policy with status \<^verbatim>\<open>ACTIVE\<close> whose end date is its start date plus the quote's
  \<^verbatim>\<open>termYears\<close>, turns the quote \<^verbatim>\<open>ACCEPTED\<close>, stores exactly that policy and creates
  exactly one \<^verbatim>\<open>POLICY_ISSUED\<close> event for it; and the call does succeed when the
  database does not fail.
\<close>

theorem acceptQuote_issues_policy:
  assumes "quotes w i = Some q" and "q_status q = PENDING"
  shows "(\<forall>p w'. acceptQuote env (Some i) w = (Inr p, w') \<longrightarrow>
            p_status p = ACTIVE \<and> p_quoteId p = i \<and> p_customerId p = q_customerId q
            \<and> p_startDate p = today env
            \<and> p_endDate p = addYears (p_startDate p) (q_termYears q)
            \<and> year (p_endDate p) = year (p_startDate p) + q_termYears q
            \<and> quotes w' i = Some (q\<lparr>q_status := ACCEPTED\<rparr>)
            \<and> policies w' = policies w @ [p]
            \<and> sqsPolicyIssuedQueue w' = sqsPolicyIssuedQueue w @
                 [\<lparr>e_type = ''POLICY_ISSUED'', e_policyId = p_id p,
                   e_customerId = q_customerId q, e_issuedAt = now env\<rparr>])
     \<and> (\<not> dbError env
          \<and> ''LS-'' @ showNat (now env) @ ''-'' @ showInt i
               \<notin> set (map p_policyNumber (policies w))
          \<longrightarrow> (\<exists>p w'. acceptQuote env (Some i) w = (Inr p, w')))"
proof -
  have issued: "p_status p = ACTIVE \<and> p_quoteId p = i \<and> p_customerId p = q_customerId q
            \<and> p_startDate p = today env
            \<and> p_endDate p = addYears (p_startDate p) (q_termYears q)
            \<and> year (p_endDate p) = year (p_startDate p) + q_termYears q
            \<and> quotes w' i = Some (q\<lparr>q_status := ACCEPTED\<rparr>)
            \<and> policies w' = policies w @ [p]
            \<and> sqsPolicyIssuedQueue w' = sqsPolicyIssuedQueue w @
                 [\<lparr>e_type = ''POLICY_ISSUED'', e_policyId = p_id p,
                   e_customerId = q_customerId q, e_issuedAt = now env\<rparr>]"
    if ok: "acceptQuote env (Some i) w = (Inr p, w')" for p w'
  proof -
    from acceptQuote_Some_InrD [OF ok] assms(1) obtain wc where
      tx: "issuePolicyTransaction env i q w = Some (p, wc)"
      and w': "w' = (publishPolicyIssued env p wc)
                      \<lparr>policies_issued_total := policies_issued_total wc + 1\<rparr>"
      by auto
    note pd = issuePolicyTransaction_SomeD(1) [OF tx]
    note wc = issuePolicyTransaction_SomeD(2) [OF tx]
    have p1: "p_status p = ACTIVE" by (subst pd) simp
    have p2: "p_quoteId p = i" by (subst pd) simp
    have p3: "p_customerId p = q_customerId q" by (subst pd) simp
    have p4: "p_startDate p = today env" by (subst pd) simp
    have "p_endDate p = addYears (today env) (q_termYears q)" by (subst pd) simp
    then have p5: "p_endDate p = addYears (p_startDate p) (q_termYears q)"
      by (simp add: p4)
    have p6: "year (p_endDate p) = year (p_startDate p) + q_termYears q"
      by (simp add: p5 addYears_def)
    have c1: "quotes wc i = Some (q\<lparr>q_status := ACCEPTED\<rparr>)" by (subst wc) simp
    have c2: "policies wc = policies w @ [p]" by (subst wc) simp
    have c3: "sqsPolicyIssuedQueue wc = sqsPolicyIssuedQueue w" by (subst wc) simp
    have s1: "quotes w' i = Some (q\<lparr>q_status := ACCEPTED\<rparr>)"
      by (simp add: w' publishPolicyIssued_def c1)
    have s2: "policies w' = policies w @ [p]"
      by (simp add: w' publishPolicyIssued_def c2)
    have s3: "sqsPolicyIssuedQueue w' = sqsPolicyIssuedQueue w @
                   [\<lparr>e_type = ''POLICY_ISSUED'', e_policyId = p_id p,
                     e_customerId = q_customerId q, e_issuedAt = now env\<rparr>]"
      by (simp add: w' publishPolicyIssued_def c3 p3)
    from p1 p2 p3 p4 p5 p6 s1 s2 s3 show ?thesis by (intro conjI)
  qed
  have succeeds: "\<exists>p w'. acceptQuote env (Some i) w = (Inr p, w')"
    if ok: "\<not> dbError env
          \<and> ''LS-'' @ showNat (now env) @ ''-'' @ showInt i
               \<notin> set (map p_policyNumber (policies w))"
  proof -
    from ok obtain p wc where "issuePolicyTransaction env i q w = Some (p, wc)"
      using issuePolicyTransaction_succeeds [of env i w q] by blast
    from acceptQuote_pending_commit [OF assms this] show ?thesis by blast
  qed
  from issued succeeds show ?thesis by blast
qed


theorem acceptQuote_issues_policy_witness:
  "quotes exampleService1 1 = Some exampleQuote \<and> q_status exampleQuote = PENDING
   \<and> acceptQuote exampleEnv (Some 1) exampleService1 = (Inr examplePolicy, exampleService2)
   \<and> p_status examplePolicy = ACTIVE
   \<and> p_endDate examplePolicy = addYears (p_startDate examplePolicy) (q_termYears exampleQuote)
   \<and> p_startDate examplePolicy = \<lparr>year = 2025, month = 12, day = 1\<rparr>
   \<and> p_endDate examplePolicy = \<lparr>year = 2045, month = 12, day = 1\<rparr>
   \<and> quotes exampleService2 1 = Some (exampleQuote\<lparr>q_status := ACCEPTED\<rparr>)
   \<and> policies exampleService2 = policies exampleService1 @ [examplePolicy]
   \<and> sqsPolicyIssuedQueue exampleService2 = sqsPolicyIssuedQueue exampleService1 @
        [\<lparr>e_type = ''POLICY_ISSUED'', e_policyId = p_id examplePolicy,
          e_customerId = q_customerId exampleQuote, e_issuedAt = now exampleEnv\<rparr>]
   \<and> \<not> dbError exampleEnv
   \<and> (\<exists>p w'. acceptQuote exampleEnv (Some 1) exampleService1 = (Inr p, w'))"
proof -
  note t = acceptQuote_issues_policy [OF example_quote1 example_pending, of exampleEnv]
  note a = example_acceptQuote
  from t [THEN conjunct1, rule_format, OF a]
  have props: "p_status examplePolicy = ACTIVE"
    "p_endDate examplePolicy = addYears (p_startDate examplePolicy) (q_termYears exampleQuote)"
    "quotes exampleService2 1 = Some (exampleQuote\<lparr>q_status := ACCEPTED\<rparr>)"
    "policies exampleService2 = policies exampleService1 @ [examplePolicy]"
    "sqsPolicyIssuedQueue exampleService2 = sqsPolicyIssuedQueue exampleService1 @
        [\<lparr>e_type = ''POLICY_ISSUED'', e_policyId = p_id examplePolicy,
          e_customerId = q_customerId exampleQuote, e_issuedAt = now exampleEnv\<rparr>]"
    by blast+
  have db: "\<not> dbError exampleEnv" by (simp add: exampleEnv_def)
  have fresh: "''LS-'' @ showNat (now exampleEnv) @ ''-'' @ showInt 1
               \<notin> set (map p_policyNumber (policies exampleService1))"
    by (simp add: exampleService1_def)
  from t [THEN conjunct2, rule_format, OF conjI [OF db fresh]]
  have ex: "\<exists>p w'. acceptQuote exampleEnv (Some 1) exampleService1 = (Inr p, w')" .
  have d1: "p_startDate examplePolicy = \<lparr>year = 2025, month = 12, day = 1\<rparr>"
    by (simp add: examplePolicy_def)
  have d2: "p_endDate examplePolicy = \<lparr>year = 2045, month = 12, day = 1\<rparr>"
    by (simp add: examplePolicy_def)
  from example_quote1 example_pending a props d1 d2 db ex show ?thesis
    by (intro conjI)
qed

subsection \<open>Notification worker\<close>

lemma getProp_JNull: "getProp JNull k = None"
  by simp

lemma handleMessage_policyIssued:
  assumes "isPolicyIssued msg"
  shows "\<exists>body. Body msg = Some body \<and> handleMessage msg w = Inr (handlePolicyIssued body w)"
proof -
  from assms obtain body where b: "Body msg = Some body"
    and t: "getProp body ''type'' = Some (JStr ''POLICY_ISSUED'')"
    by (auto simp: isPolicyIssued_def split: option.splits)
  from t have "body \<noteq> JNull" by auto
  with b t have "handleMessage msg w = Inr (handlePolicyIssued body w)"
    by (cases body) (simp_all add: handleMessage_def)
  with b show ?thesis by blast
qed

lemma handleMessage_Inr_fields:
  assumes "handleMessage msg w = Inr w1"
  shows "sqsQueue w1 = sqsQueue w" and "processedTotal w1 = processedTotal w"
    and "failedTotal w1 = failedTotal w" and "durationsObserved w1 = durationsObserved w"
  using assms
  by (auto simp: handleMessage_def handlePolicyIssued_def Let_def
      split: option.splits json.splits if_splits)

lemma notificationsSent_handlePolicyIssued:
  "notificationsSent (handlePolicyIssued body w) = notificationsSent w + 1"
  by (simp add: notificationsSent_def handlePolicyIssued_def Let_def)

lemma notificationsSent_onProcessingError:
  "notificationsSent (onProcessingError err msg w) = notificationsSent w"
  by (simp add: notificationsSent_def onProcessingError_def)

lemma notificationsSent_deleted:
  "notificationsSent
     (deleteMessage h w\<lparr>processedTotal := a, durationsObserved := b\<rparr>) = notificationsSent w"
  by (simp add: notificationsSent_def deleteMessage_def)

lemma processMessage_policyIssued:
  assumes "isPolicyIssued msg"
  shows "notificationsSent (processMessage d msg w) = notificationsSent w + 1"
proof -
  from handleMessage_policyIssued [OF assms, of w] obtain body where
    h: "handleMessage msg w = Inr (handlePolicyIssued body w)" by blast
  show ?thesis
  proof (cases "d (ReceiptHandle msg)")
    case True
    then show ?thesis
      by (simp add: processMessage_def h Let_def notificationsSent_def deleteMessage_def
          handlePolicyIssued_def)
  next
    case False
    then show ?thesis
      by (simp add: processMessage_def h notificationsSent_onProcessingError
          notificationsSent_handlePolicyIssued)
  qed
qed

lemma processMessage_deleted:
  assumes "handleMessage msg w = Inr w1" and "d (ReceiptHandle msg)"
  shows "msg \<notin> set (sqsQueue (processMessage d msg w))"
  using assms by (simp add: processMessage_def Let_def deleteMessage_def)

lemma processMessage_failure:
  assumes "processingFails d msg w"
  shows "sqsQueue (processMessage d msg w) = sqsQueue w"
    and "failedTotal (processMessage d msg w) = failedTotal w + 1"
    and "processedTotal (processMessage d msg w) = processedTotal w"
proof -
  show "sqsQueue (processMessage d msg w) = sqsQueue w"
    using assms
    by (auto simp: processingFails_def processMessage_def onProcessingError_def
        handleMessage_Inr_fields split: sum.splits)
  show "failedTotal (processMessage d msg w) = failedTotal w + 1"
    using assms
    by (auto simp: processingFails_def processMessage_def onProcessingError_def
        handleMessage_Inr_fields split: sum.splits)
  show "processedTotal (processMessage d msg w) = processedTotal w"
    using assms
    by (auto simp: processingFails_def processMessage_def onProcessingError_def
        handleMessage_Inr_fields split: sum.splits)
qed

lemma processMessage_failure_logged:
  assumes "processingFails d msg w"
  shows "logged (processMessage d msg w)
          = (case handleMessage msg w of
               Inl err \<Rightarrow> logged w @ [LogError ''Error processing SQS message'' err (Some msg)]
             | Inr w1 \<Rightarrow>
                 logged w1 @ [LogError ''Error processing SQS message'' SqsError (Some msg)])"
  using assms
  by (auto simp: processingFails_def processMessage_def onProcessingError_def split: sum.splits)

lemma processMessage_success:
  assumes "\<not> processingFails d msg w"
  shows "failedTotal (processMessage d msg w) = failedTotal w"
    and "processedTotal (processMessage d msg w) = processedTotal w + 1"
  using assms
  by (auto simp: processingFails_def processMessage_def Let_def deleteMessage_def
      handleMessage_Inr_fields split: sum.splits)

lemma processMessage_counts:
  "processedTotal (processMessage d msg w) + failedTotal (processMessage d msg w)
     = processedTotal w + failedTotal w + 1"
proof (cases "processingFails d msg w")
  case True
  then show ?thesis by (simp add: processMessage_failure)
next
  case False
  then show ?thesis by (simp add: processMessage_success)
qed

lemma processMessages_counts:
  "processedTotal (processMessages d msgs w) + failedTotal (processMessages d msgs w)
     = processedTotal w + failedTotal w + length msgs"
proof (induction msgs arbitrary: w)
  case Nil
  show ?case by simp
next
  case (Cons m ms)
  have "processedTotal (processMessages d (m # ms) w) + failedTotal (processMessages d (m # ms) w)
      = processedTotal (processMessage d m w) + failedTotal (processMessage d m w) + length ms"
    by (simp add: Cons.IH)
  also have "\<dots> = processedTotal w + failedTotal w + 1 + length ms"
    by (simp only: processMessage_counts)
  finally show ?case by simp
qed

lemma processMessages_append:
  "processMessages d (xs @ ys) w = processMessages d ys (processMessages d xs w)"
  by (induction xs arbitrary: w) simp_all

lemma poll_append: "poll d (rs @ rs') w = poll d rs' (poll d rs w)"
  by (induction rs arbitrary: w) simp_all

lemma processMessage_parse_failure:
  "Body msg = None \<Longrightarrow> processMessage d msg w = onProcessingError SyntaxError msg w"
  by (simp add: processMessage_def handleMessage_def)

lemma processMessage_deleted_only_after_success:
  assumes "msg \<in> set (sqsQueue w)" and "msg \<notin> set (sqsQueue (processMessage d msg w))"
  shows "(\<exists>w1. handleMessage msg w = Inr w1) \<and> d (ReceiptHandle msg)"
proof -
  have "\<not> processingFails d msg w"
    using assms processMessage_failure(1) [of d msg w] by auto
  then show ?thesis
    by (auto simp: processingFails_def split: sum.splits)
qed

lemma example_handle: "handleMessage exampleMessage w =
    Inr (w\<lparr>logged := logged w @
        [LogInfo ''Simulating welcome email for policy'' (Some (JNum 42)) (Some (JNum 10))]\<rparr>)"
  by (simp add: handleMessage_def exampleMessage_def handlePolicyIssued_def Let_def)

lemma example_isPolicyIssued: "isPolicyIssued exampleMessage"
  by (simp add: isPolicyIssued_def exampleMessage_def)

lemma example_process_malformed:
  "processMessage deleteAlwaysOk malformedMessage exampleWorker =
     exampleWorker\<lparr>logged := [LogError ''Error processing SQS message'' SyntaxError
                                (Some malformedMessage)],
                    failedTotal := 1\<rparr>"
  by (simp add: processMessage_def handleMessage_def malformedMessage_def onProcessingError_def
      exampleWorker_def)

lemma example_process_both:
  "processMessages deleteAlwaysOk [malformedMessage, exampleMessage] exampleWorker =
     \<lparr>sqsQueue = [malformedMessage],
      logged = [LogError ''Error processing SQS message'' SyntaxError (Some malformedMessage),
                LogInfo ''Simulating welcome email for policy'' (Some (JNum 42)) (Some (JNum 10))],
      processedTotal = 1, failedTotal = 1, durationsObserved = 1\<rparr>"
proof -
  have "processMessage deleteAlwaysOk exampleMessage
          (exampleWorker\<lparr>logged := [LogError ''Error processing SQS message'' SyntaxError
                                (Some malformedMessage)],
                    failedTotal := 1\<rparr>)
        = \<lparr>sqsQueue = [malformedMessage],
      logged = [LogError ''Error processing SQS message'' SyntaxError (Some malformedMessage),
                LogInfo ''Simulating welcome email for policy'' (Some (JNum 42)) (Some (JNum 10))],
      processedTotal = 1, failedTotal = 1, durationsObserved = 1\<rparr>"
    by (simp add: processMessage_def example_handle deleteAlwaysOk_def deleteMessage_def
        Let_def exampleWorker_def)
       (simp add: exampleMessage_def malformedMessage_def)
  then show ?thesis by (simp add: example_process_malformed)
qed

text \<open>
  Claim C3, as stated, fails: the message of the example delivered twice (in two batches)
  leaves two notification side effects, the two log lines of \<^verbatim>\<open>handlePolicyIssued\<close>.
\<close>

theorem duplicate_delivery_counterexample:
  "notificationsSent
     (poll deleteAlwaysOk [Received [exampleMessage], Received [exampleMessage]] exampleWorker) = 2
   \<and> notificationsSent exampleWorker = 0"
  by (simp add: processMessage_policyIssued example_isPolicyIssued)
     (simp add: notificationsSent_def exampleWorker_def)

text \<open>
  Claim C3, amended. Every delivery of a \<^verbatim>\<open>POLICY_ISSUED\<close> message performs the
  notification side effect once, whatever was delivered before: the worker keeps no record
  of the messages it has processed. So the same message delivered twice leaves two
  notification side effects. After each delivery the message is deleted when the call of
  \<^verbatim>\<open>deleteMessage\<close> succeeds, and stays in the queue when it fails.
\<close>

theorem every_delivery_notifies:
  assumes "isPolicyIssued msg"
  shows "notificationsSent (processMessage d msg w) = notificationsSent w + 1
    \<and> notificationsSent (processMessage d2 msg (processMessage d msg w)) = notificationsSent w + 2
    \<and> (d (ReceiptHandle msg) \<longrightarrow> msg \<notin> set (sqsQueue (processMessage d msg w)))
    \<and> (\<not> d (ReceiptHandle msg) \<longrightarrow> sqsQueue (processMessage d msg w) = sqsQueue w)"
proof -
  have one: "notificationsSent (processMessage d msg w) = notificationsSent w + 1"
    using assms by (rule processMessage_policyIssued)
  have "notificationsSent (processMessage d2 msg (processMessage d msg w))
      = notificationsSent (processMessage d msg w) + 1"
    using assms by (rule processMessage_policyIssued)
  with one have two:
    "notificationsSent (processMessage d2 msg (processMessage d msg w)) = notificationsSent w + 2"
    by simp
  from handleMessage_policyIssued [OF assms, of w] obtain w1 where
    h: "handleMessage msg w = Inr w1" by blast
  have del: "msg \<notin> set (sqsQueue (processMessage d msg w))" if "d (ReceiptHandle msg)"
    using h that by (rule processMessage_deleted)
  have keep: "sqsQueue (processMessage d msg w) = sqsQueue w" if "\<not> d (ReceiptHandle msg)"
    using that h by (intro processMessage_failure(1)) (simp add: processingFails_def)
  from one two del keep show ?thesis by blast
qed

theorem every_delivery_notifies_witness:
  "isPolicyIssued exampleMessage
   \<and> notificationsSent (processMessage deleteAlwaysOk exampleMessage exampleWorker)
       = notificationsSent exampleWorker + 1
   \<and> notificationsSent (processMessage deleteAlwaysOk exampleMessage
         (processMessage deleteAlwaysOk exampleMessage exampleWorker))
       = notificationsSent exampleWorker + 2
   \<and> deleteAlwaysOk (ReceiptHandle exampleMessage)
   \<and> exampleMessage \<notin> set (sqsQueue (processMessage deleteAlwaysOk exampleMessage exampleWorker))
   \<and> exampleMessage \<in> set (sqsQueue exampleWorker)"
proof -
  note t = every_delivery_notifies [OF example_isPolicyIssued,
      of deleteAlwaysOk exampleWorker deleteAlwaysOk]
  have d: "deleteAlwaysOk (ReceiptHandle exampleMessage)" by (simp add: deleteAlwaysOk_def)
  have q: "exampleMessage \<in> set (sqsQueue exampleWorker)" by (simp add: exampleWorker_def)
  from example_isPolicyIssued t [THEN conjunct1] t [THEN conjunct2, THEN conjunct1] d
    t [THEN conjunct2, THEN conjunct2, THEN conjunct1, rule_format, OF d] q
  show ?thesis by (intro conjI)
qed

text \<open>
  Claim C8, as stated, fails: a message whose body does not parse is not routed to any
  dead-letter path. Processing it changes the log and the failure counter and nothing
  else; the message stays in the queue, as after every other failure.
\<close>

theorem poison_message_counterexample:
  "processMessage deleteAlwaysOk malformedMessage exampleWorker =
     exampleWorker\<lparr>logged := [LogError ''Error processing SQS message'' SyntaxError
                                (Some malformedMessage)],
                    failedTotal := 1\<rparr>
   \<and> sqsQueue (processMessage deleteAlwaysOk malformedMessage exampleWorker)
       = [malformedMessage, exampleMessage]"
  by (simp add: example_process_malformed) (simp add: exampleWorker_def)

text \<open>
  Claim C8, amended. For every message whose processing fails, the worker does not delete
  it from the queue, logs the error with the message (after whatever the handler had logged)
  and counts the message as failed; the loops do not stop: every message of a
  batch is processed, whatever happened to the ones before it, and every batch after a
  failed one. A message that fails to parse is handled by the same \<^verbatim>\<open>catch\<close> block as
  every other failure (logged, counted, left in the queue for the broker to deliver again;
  the worker has no dead-letter routing and no retry loop of its own). A message is deleted
  only after \<^verbatim>\<open>handleMessage\<close> has succeeded.
\<close>

theorem failed_message_stays_loop_continues:
  "(processingFails d msg w \<longrightarrow>
      sqsQueue (processMessage d msg w) = sqsQueue w
      \<and> failedTotal (processMessage d msg w) = failedTotal w + 1
      \<and> processedTotal (processMessage d msg w) = processedTotal w
      \<and> logged (processMessage d msg w)
          = (case handleMessage msg w of
               Inl err \<Rightarrow> logged w @ [LogError ''Error processing SQS message'' err (Some msg)]
             | Inr w1 \<Rightarrow>
                 logged w1 @ [LogError ''Error processing SQS message'' SqsError (Some msg)]))
   \<and> processMessages d (before @ msg # rest) w
       = processMessages d rest (processMessage d msg (processMessages d before w))
   \<and> processedTotal (processMessages d msgs w) + failedTotal (processMessages d msgs w)
       = processedTotal w + failedTotal w + length msgs
   \<and> poll d (rs @ rs') w = poll d rs' (poll d rs w)
   \<and> (Body msg = None \<longrightarrow> processingFails d msg w
        \<and> processMessage d msg w = onProcessingError SyntaxError msg w)
   \<and> (msg \<in> set (sqsQueue w) \<and> msg \<notin> set (sqsQueue (processMessage d msg w))
        \<longrightarrow> (\<exists>w1. handleMessage msg w = Inr w1) \<and> d (ReceiptHandle msg))"
proof (intro conjI impI)
  assume f: "processingFails d msg w"
  then show "sqsQueue (processMessage d msg w) = sqsQueue w"
    by (rule processMessage_failure)
  from f show "failedTotal (processMessage d msg w) = failedTotal w + 1"
    by (rule processMessage_failure)
  from f show "processedTotal (processMessage d msg w) = processedTotal w"
    by (rule processMessage_failure)
  from f show "logged (processMessage d msg w)
          = (case handleMessage msg w of
               Inl err \<Rightarrow> logged w @ [LogError ''Error processing SQS message'' err (Some msg)]
             | Inr w1 \<Rightarrow>
                 logged w1 @ [LogError ''Error processing SQS message'' SqsError (Some msg)])"
    by (rule processMessage_failure_logged)
next
  show "processMessages d (before @ msg # rest) w
       = processMessages d rest (processMessage d msg (processMessages d before w))"
    by (simp add: processMessages_append)
next
  show "processedTotal (processMessages d msgs w) + failedTotal (processMessages d msgs w)
       = processedTotal w + failedTotal w + length msgs"
    by (rule processMessages_counts)
next
  show "poll d (rs @ rs') w = poll d rs' (poll d rs w)"
    by (rule poll_append)
next
  assume "Body msg = None"
  then show "processingFails d msg w"
    by (simp add: processingFails_def handleMessage_def)
next
  assume "Body msg = None"
  then show "processMessage d msg w = onProcessingError SyntaxError msg w"
    by (rule processMessage_parse_failure)
next
  assume a: "msg \<in> set (sqsQueue w) \<and> msg \<notin> set (sqsQueue (processMessage d msg w))"
  then show "\<exists>w1. handleMessage msg w = Inr w1"
    using processMessage_deleted_only_after_success [of msg w d] by blast
  from a show "d (ReceiptHandle msg)"
    using processMessage_deleted_only_after_success [of msg w d] by blast
qed


theorem failed_message_stays_loop_continues_witness:
  "processingFails deleteAlwaysOk malformedMessage exampleWorker
   \<and> sqsQueue (processMessage deleteAlwaysOk malformedMessage exampleWorker)
       = sqsQueue exampleWorker
   \<and> failedTotal (processMessage deleteAlwaysOk malformedMessage exampleWorker)
       = failedTotal exampleWorker + 1
   \<and> logged (processMessage deleteAlwaysOk malformedMessage exampleWorker)
       = [LogError ''Error processing SQS message'' SyntaxError (Some malformedMessage)]
   \<and> Body malformedMessage = None
   \<and> processMessage deleteAlwaysOk malformedMessage exampleWorker
       = onProcessingError SyntaxError malformedMessage exampleWorker
   \<and> processMessages deleteAlwaysOk ([] @ malformedMessage # [exampleMessage]) exampleWorker
       = processMessages deleteAlwaysOk [exampleMessage]
           (processMessage deleteAlwaysOk malformedMessage
              (processMessages deleteAlwaysOk [] exampleWorker))
   \<and> processMessages deleteAlwaysOk [malformedMessage, exampleMessage] exampleWorker =
       \<lparr>sqsQueue = [malformedMessage],
        logged = [LogError ''Error processing SQS message'' SyntaxError (Some malformedMessage),
                  LogInfo ''Simulating welcome email for policy'' (Some (JNum 42))
                    (Some (JNum 10))],
        processedTotal = 1, failedTotal = 1, durationsObserved = 1\<rparr>
   \<and> exampleMessage \<in> set (sqsQueue exampleWorker)
   \<and> exampleMessage \<notin> set (sqsQueue (processMessage deleteAlwaysOk exampleMessage exampleWorker))
   \<and> (\<exists>w1. handleMessage exampleMessage exampleWorker = Inr w1)
   \<and> deleteAlwaysOk (ReceiptHandle exampleMessage)"
proof -
  note t = failed_message_stays_loop_continues
      [where d = deleteAlwaysOk and msg = malformedMessage and w = exampleWorker
         and before = "[]" and rest = "[exampleMessage]"]
  note u = failed_message_stays_loop_continues
      [where d = deleteAlwaysOk and msg = exampleMessage and w = exampleWorker]
  have b: "Body malformedMessage = None" by (simp add: malformedMessage_def)
  have f: "processingFails deleteAlwaysOk malformedMessage exampleWorker"
    using t b by blast
  have q1: "sqsQueue (processMessage deleteAlwaysOk malformedMessage exampleWorker)
       = sqsQueue exampleWorker"
    using t f by blast
  have q2: "failedTotal (processMessage deleteAlwaysOk malformedMessage exampleWorker)
       = failedTotal exampleWorker + 1"
    using t f by blast
  have hm: "handleMessage malformedMessage exampleWorker = Inl SyntaxError"
    by (simp add: handleMessage_def malformedMessage_def)
  have "logged (processMessage deleteAlwaysOk malformedMessage exampleWorker)
       = (case handleMessage malformedMessage exampleWorker of
            Inl err \<Rightarrow> logged exampleWorker
              @ [LogError ''Error processing SQS message'' err (Some malformedMessage)]
          | Inr w1 \<Rightarrow> logged w1
              @ [LogError ''Error processing SQS message'' SqsError (Some malformedMessage)])"
    using t f by blast
  then have ql: "logged (processMessage deleteAlwaysOk malformedMessage exampleWorker)
       = [LogError ''Error processing SQS message'' SyntaxError (Some malformedMessage)]"
    by (simp only: hm sum.case) (simp add: exampleWorker_def)
  have q3: "processMessage deleteAlwaysOk malformedMessage exampleWorker
       = onProcessingError SyntaxError malformedMessage exampleWorker"
    using t b by blast
  have q4: "processMessages deleteAlwaysOk ([] @ malformedMessage # [exampleMessage]) exampleWorker
       = processMessages deleteAlwaysOk [exampleMessage]
           (processMessage deleteAlwaysOk malformedMessage
              (processMessages deleteAlwaysOk [] exampleWorker))"
    using t by blast
  have m1: "exampleMessage \<in> set (sqsQueue exampleWorker)" by (simp add: exampleWorker_def)
  have d: "deleteAlwaysOk (ReceiptHandle exampleMessage)" by (simp add: deleteAlwaysOk_def)
  have m2: "exampleMessage \<notin> set (sqsQueue (processMessage deleteAlwaysOk exampleMessage exampleWorker))"
    using example_handle d by (rule processMessage_deleted)
  have m3: "\<exists>w1. handleMessage exampleMessage exampleWorker = Inr w1"
    using u m1 m2 by blast
  from f q1 q2 ql b q3 q4 example_process_both m1 m2 m3 d show ?thesis
    by (intro conjI)
qed

subsection \<open>API service\<close>

lemma requestIdMiddleware_same:
  "requestId (fst (requestIdMiddleware uuid rq rs))
     = resHeaders (snd (requestIdMiddleware uuid rq rs)) ''X-Request-Id''"
  by (simp add: requestIdMiddleware_def setHeader_def Let_def)

lemma requestIdMiddleware_value:
  "resHeaders (snd (requestIdMiddleware uuid rq rs)) ''X-Request-Id''
     = Some (case headers rq ''x-request-id'' of None \<Rightarrow> uuid
             | Some s \<Rightarrow> if s = [] then uuid else s)"
  by (simp add: requestIdMiddleware_def setHeader_def Let_def)

lemma createApp_toRequestId_passed:
  "verb \<noteq> ''OPTIONS'' \<Longrightarrow>
   createApp_toRequestId uuid verb BodyAccepted rq rs
     = PassedOn (fst (requestIdMiddleware uuid rq rs)) (snd (requestIdMiddleware uuid rq rs))"
  by (simp add: createApp_toRequestId_def split: prod.splits)

lemma createApp_toRequestId_early:
  assumes "resHeaders rs ''X-Request-Id'' = None"
    and "verb = ''OPTIONS'' \<or> body = BodyRejected err"
  shows "\<exists>r. createApp_toRequestId uuid verb body rq rs = Responded r
           \<and> resHeaders r ''X-Request-Id'' = None"
  using assms by (auto simp: createApp_toRequestId_def createApp_errorHandler_def)

lemma example_rejected_body:
  "createApp_toRequestId exampleUuid ''POST'' (BodyRejected exampleBodyError)
       exampleReqWithId exampleRes
     = Responded (exampleRes\<lparr>statusCode := 500,
          resBody := Some (JObj [(''errorCode'', JStr ''INTERNAL_ERROR''),
                                 (''message'', JStr ''Unexpected server error'')])\<rparr>)"
  by (simp add: createApp_toRequestId_def createApp_errorHandler_def)

text \<open>
  Claim C9, as stated, fails: not every response carries the header. A \<^verbatim>\<open>POST\<close> that
  sends \<^verbatim>\<open>X-Request-Id: abc-123\<close> and a body that is not JSON is rejected by
  \<^verbatim>\<open>express.json()\<close> before the middleware runs; the error handler answers 500, and the
  response has no \<^verbatim>\<open>X-Request-Id\<close>.
\<close>

theorem response_without_request_id_counterexample:
  "headers exampleReqWithId ''x-request-id'' = Some ''abc-123''
   \<and> createApp_toRequestId exampleUuid ''POST'' (BodyRejected exampleBodyError)
         exampleReqWithId exampleRes
       = Responded (exampleRes\<lparr>statusCode := 500,
            resBody := Some (JObj [(''errorCode'', JStr ''INTERNAL_ERROR''),
                                   (''message'', JStr ''Unexpected server error'')])\<rparr>)
   \<and> resHeaders (exampleRes\<lparr>statusCode := 500,
            resBody := Some (JObj [(''errorCode'', JStr ''INTERNAL_ERROR''),
                                   (''message'', JStr ''Unexpected server error'')])\<rparr>)
         ''X-Request-Id'' = None"
  by (simp add: example_rejected_body) (simp add: exampleReqWithId_def exampleRes_def)

text \<open>
  Claim C9, amended. For every request that reaches the middleware (every request that is
  not an \<^verbatim>\<open>OPTIONS\<close> request and whose body \<^verbatim>\<open>express.json()\<close> accepts), the middleware
  sets \<^verbatim>\<open>req.requestId\<close> and the response header \<^verbatim>\<open>X-Request-Id\<close> to the same value:
  the incoming \<^verbatim>\<open>x-request-id\<close> header when it is present and not empty, otherwise the
  generated UUID. So the middleware always sets the header, and a client's id that is not
  empty comes back unchanged. A request answered before the middleware runs, by
  \<^verbatim>\<open>cors()\<close> or by the error handler after \<^verbatim>\<open>express.json()\<close> has rejected the body,
  gets a response without \<^verbatim>\<open>X-Request-Id\<close>, whatever id the client sent.
\<close>

theorem requestIdMiddleware_sets_id:
  "requestId (fst (requestIdMiddleware uuid rq rs))
     = resHeaders (snd (requestIdMiddleware uuid rq rs)) ''X-Request-Id''
   \<and> (\<exists>v. resHeaders (snd (requestIdMiddleware uuid rq rs)) ''X-Request-Id'' = Some v)
   \<and> (headers rq ''x-request-id'' = Some s \<and> s \<noteq> []
        \<longrightarrow> resHeaders (snd (requestIdMiddleware uuid rq rs)) ''X-Request-Id'' = Some s)
   \<and> (headers rq ''x-request-id'' = None \<or> headers rq ''x-request-id'' = Some []
        \<longrightarrow> resHeaders (snd (requestIdMiddleware uuid rq rs)) ''X-Request-Id'' = Some uuid)
   \<and> (verb \<noteq> ''OPTIONS''
        \<longrightarrow> createApp_toRequestId uuid verb BodyAccepted rq rs
            = PassedOn (fst (requestIdMiddleware uuid rq rs))
                (snd (requestIdMiddleware uuid rq rs)))
   \<and> (resHeaders rs ''X-Request-Id'' = None
        \<and> (verb = ''OPTIONS'' \<or> body = BodyRejected err)
        \<longrightarrow> (\<exists>r. createApp_toRequestId uuid verb body rq rs = Responded r
               \<and> resHeaders r ''X-Request-Id'' = None))"
proof (intro conjI impI)
  show "requestId (fst (requestIdMiddleware uuid rq rs))
     = resHeaders (snd (requestIdMiddleware uuid rq rs)) ''X-Request-Id''"
    by (rule requestIdMiddleware_same)
next
  show "\<exists>v. resHeaders (snd (requestIdMiddleware uuid rq rs)) ''X-Request-Id'' = Some v"
    by (simp add: requestIdMiddleware_value)
next
  assume "headers rq ''x-request-id'' = Some s \<and> s \<noteq> []"
  then show "resHeaders (snd (requestIdMiddleware uuid rq rs)) ''X-Request-Id'' = Some s"
    by (simp add: requestIdMiddleware_value)
next
  assume "headers rq ''x-request-id'' = None \<or> headers rq ''x-request-id'' = Some []"
  then show "resHeaders (snd (requestIdMiddleware uuid rq rs)) ''X-Request-Id'' = Some uuid"
    by (auto simp: requestIdMiddleware_value)
next
  assume "verb \<noteq> ''OPTIONS''"
  then show "createApp_toRequestId uuid verb BodyAccepted rq rs
            = PassedOn (fst (requestIdMiddleware uuid rq rs))
                (snd (requestIdMiddleware uuid rq rs))"
    by (rule createApp_toRequestId_passed)
next
  assume "resHeaders rs ''X-Request-Id'' = None
        \<and> (verb = ''OPTIONS'' \<or> body = BodyRejected err)"
  then show "\<exists>r. createApp_toRequestId uuid verb body rq rs = Responded r
               \<and> resHeaders r ''X-Request-Id'' = None"
    using createApp_toRequestId_early [of rs verb body err uuid rq] by blast
qed

theorem requestIdMiddleware_sets_id_witness:
  "headers exampleReqWithId ''x-request-id'' = Some ''abc-123'' \<and> ''abc-123'' \<noteq> []
   \<and> resHeaders (snd (requestIdMiddleware exampleUuid exampleReqWithId exampleRes))
        ''X-Request-Id'' = Some ''abc-123''
   \<and> requestId (fst (requestIdMiddleware exampleUuid exampleReqWithId exampleRes))
       = resHeaders (snd (requestIdMiddleware exampleUuid exampleReqWithId exampleRes))
           ''X-Request-Id''
   \<and> (headers exampleReqWithoutId ''x-request-id'' = None
        \<or> headers exampleReqWithoutId ''x-request-id'' = Some [])
   \<and> resHeaders (snd (requestIdMiddleware exampleUuid exampleReqWithoutId exampleRes))
        ''X-Request-Id'' = Some exampleUuid
   \<and> ''GET'' \<noteq> ''OPTIONS''
   \<and> createApp_toRequestId exampleUuid ''GET'' BodyAccepted exampleReqWithId exampleRes
       = PassedOn (fst (requestIdMiddleware exampleUuid exampleReqWithId exampleRes))
           (snd (requestIdMiddleware exampleUuid exampleReqWithId exampleRes))
   \<and> resHeaders exampleRes ''X-Request-Id'' = None
   \<and> (''POST'' = ''OPTIONS'' \<or> BodyRejected exampleBodyError = BodyRejected exampleBodyError)
   \<and> (\<exists>r. createApp_toRequestId exampleUuid ''POST'' (BodyRejected exampleBodyError)
              exampleReqWithId exampleRes = Responded r
          \<and> resHeaders r ''X-Request-Id'' = None)
   \<and> (\<exists>r. createApp_toRequestId exampleUuid ''OPTIONS'' BodyAccepted
              exampleReqWithId exampleRes = Responded r
          \<and> resHeaders r ''X-Request-Id'' = None)"
proof -
  note t = requestIdMiddleware_sets_id
      [where rq = exampleReqWithId and uuid = exampleUuid and rs = exampleRes
         and s = "''abc-123''" and verb = "''GET''"]
  note u = requestIdMiddleware_sets_id
      [where rq = exampleReqWithoutId and uuid = exampleUuid and rs = exampleRes]
  note v = requestIdMiddleware_sets_id
      [where rq = exampleReqWithId and uuid = exampleUuid and rs = exampleRes
         and verb = "''POST''" and body = "BodyRejected exampleBodyError"
         and err = exampleBodyError]
  note o = requestIdMiddleware_sets_id
      [where rq = exampleReqWithId and uuid = exampleUuid and rs = exampleRes
         and verb = "''OPTIONS''" and body = BodyAccepted]
  have h1: "headers exampleReqWithId ''x-request-id'' = Some ''abc-123''"
    by (simp add: exampleReqWithId_def)
  have h2: "''abc-123'' \<noteq> []" by simp
  have h3: "headers exampleReqWithoutId ''x-request-id'' = None
        \<or> headers exampleReqWithoutId ''x-request-id'' = Some []"
    by (simp add: exampleReqWithoutId_def)
  have h4: "''GET'' \<noteq> ''OPTIONS''" by simp
  have h5: "resHeaders exampleRes ''X-Request-Id'' = None" by (simp add: exampleRes_def)
  have h6: "''POST'' = ''OPTIONS'' \<or> BodyRejected exampleBodyError = BodyRejected exampleBodyError"
    by simp
  have c1: "resHeaders (snd (requestIdMiddleware exampleUuid exampleReqWithId exampleRes))
        ''X-Request-Id'' = Some ''abc-123''"
    using t h1 h2 by blast
  have c2: "requestId (fst (requestIdMiddleware exampleUuid exampleReqWithId exampleRes))
       = resHeaders (snd (requestIdMiddleware exampleUuid exampleReqWithId exampleRes))
           ''X-Request-Id''"
    using t by blast
  have c3: "resHeaders (snd (requestIdMiddleware exampleUuid exampleReqWithoutId exampleRes))
        ''X-Request-Id'' = Some exampleUuid"
    using u h3 by blast
  have c4: "createApp_toRequestId exampleUuid ''GET'' BodyAccepted exampleReqWithId exampleRes
       = PassedOn (fst (requestIdMiddleware exampleUuid exampleReqWithId exampleRes))
           (snd (requestIdMiddleware exampleUuid exampleReqWithId exampleRes))"
    using t h4 by blast
  have c5: "\<exists>r. createApp_toRequestId exampleUuid ''POST'' (BodyRejected exampleBodyError)
              exampleReqWithId exampleRes = Responded r
          \<and> resHeaders r ''X-Request-Id'' = None"
    using v h5 h6 by blast
  have c6: "\<exists>r. createApp_toRequestId exampleUuid ''OPTIONS'' BodyAccepted
              exampleReqWithId exampleRes = Responded r
          \<and> resHeaders r ''X-Request-Id'' = None"
    using o h5 by blast
  from h1 h2 c1 c2 h3 c3 h4 c4 h5 h6 c5 c6 show ?thesis by (intro conjI)
qed

text \<open>
  Claim C10. Every error that reaches the error handler is answered with status 500 and
  the body \<^verbatim>\<open>{"errorCode": "INTERNAL_ERROR", "message": "Unexpected server error"}\<close>,
  exactly; the error's message and stack go to the log, and the response is the same
  whatever the error was, so nothing of the error is in it.
\<close>

theorem errorHandler_internal_error:
  "statusCode (snd (createApp_errorHandler err rq rs)) = 500
   \<and> resBody (snd (createApp_errorHandler err rq rs))
       = Some (JObj [(''errorCode'', JStr ''INTERNAL_ERROR''),
                     (''message'', JStr ''Unexpected server error'')])
   \<and> fst (createApp_errorHandler err rq rs)
       = ErrorLog ''Unhandled error'' (message err) (stack err) (requestId rq)
   \<and> snd (createApp_errorHandler err rq rs) = snd (createApp_errorHandler err' rq' rs)"
proof -
  have response: "snd (createApp_errorHandler e r rs) =
      rs\<lparr>statusCode := 500,
         resBody := Some (JObj [(''errorCode'', JStr ''INTERNAL_ERROR''),
                                (''message'', JStr ''Unexpected server error'')])\<rparr>" for e r
    by (simp add: createApp_errorHandler_def)
  have status: "statusCode (snd (createApp_errorHandler err rq rs)) = 500"
    by (simp add: response)
  have body: "resBody (snd (createApp_errorHandler err rq rs))
       = Some (JObj [(''errorCode'', JStr ''INTERNAL_ERROR''),
                     (''message'', JStr ''Unexpected server error'')])"
    by (simp add: response)
  have logged: "fst (createApp_errorHandler err rq rs)
       = ErrorLog ''Unhandled error'' (message err) (stack err) (requestId rq)"
    by (simp add: createApp_errorHandler_def)
  have same: "snd (createApp_errorHandler err rq rs) = snd (createApp_errorHandler err' rq' rs)"
    by (simp only: response)
  from status body logged same show ?thesis by (intro conjI)
qed

theorem errorHandler_internal_error_witness:
  "statusCode (snd (createApp_errorHandler exampleError exampleReqWithoutId exampleRes)) = 500
   \<and> resBody (snd (createApp_errorHandler exampleError exampleReqWithoutId exampleRes))
       = Some (JObj [(''errorCode'', JStr ''INTERNAL_ERROR''),
                     (''message'', JStr ''Unexpected server error'')])
   \<and> fst (createApp_errorHandler exampleError exampleReqWithoutId exampleRes)
       = ErrorLog ''Unhandled error'' (Some ''connect ECONNREFUSED 127.0.0.1:3306'')
           (Some ''Error: connect ECONNREFUSED 127.0.0.1:3306 at TCPConnectWrap'') None
   \<and> snd (createApp_errorHandler exampleError exampleReqWithoutId exampleRes)
       = snd (createApp_errorHandler \<lparr>message = None, stack = None\<rparr> exampleReqWithId exampleRes)"
proof -
  note t = errorHandler_internal_error
      [of exampleError exampleReqWithoutId exampleRes "\<lparr>message = None, stack = None\<rparr>"
          exampleReqWithId]
  have l: "fst (createApp_errorHandler exampleError exampleReqWithoutId exampleRes)
       = ErrorLog ''Unhandled error'' (Some ''connect ECONNREFUSED 127.0.0.1:3306'')
           (Some ''Error: connect ECONNREFUSED 127.0.0.1:3306 at TCPConnectWrap'') None"
    using t [THEN conjunct2, THEN conjunct2, THEN conjunct1]
    by (simp add: exampleError_def exampleReqWithoutId_def)
  from t [THEN conjunct1] t [THEN conjunct2, THEN conjunct1] l
    t [THEN conjunct2, THEN conjunct2, THEN conjunct2]
  show ?thesis by (intro conjI)
qed

end
